theory Spec2Isabelle
  imports Main "HOL-Library.Sublist"
begin

section \<open>Python values, exceptions and objects\<close>

text \<open>
  The session layer of \<^verbatim>\<open>behavior_python/core/session.py\<close> works on dynamically typed
  Python values. The values that reach the modelled methods are the ones below. A Python
  \<^verbatim>\<open>float\<close> is kept as a mantissa and a binary exponent (\<open>Finite m e\<close> stands for
  \<open>m * 2 ^ e\<close>) or one of the three special values; no floating-point arithmetic is
  performed on it here. Strings are byte strings: only ASCII text is modelled.
  \<open>VDict\<close> is a dictionary with string keys, given by its items in order;
  \<open>VDate y m d\<close> is a \<^verbatim>\<open>datetime.date\<close>.
\<close>

datatype pyfloat = Finite int int | PosInf | NegInf | NaN

datatype pyval =
    VNone
  | VBool bool
  | VInt int
  | VFloat pyfloat
  | VStr string
  | VList "pyval list"
  | VDict "(string \<times> pyval) list"
  | VDate int int int

text \<open>
  Exceptions are values. \<open>UnboundLocalError\<close> is Python's subclass of \<open>NameError\<close> that
  is raised when a local variable is read before any assignment to it. The
  \<open>RuntimeError\<close> of \<^verbatim>\<open>generate_session_id\<close> carries the value of \<^verbatim>\<open>session_dir\<close>
  that its message \<^verbatim>\<open>f"Failed to create session id for {self.session_dir}"\<close> names; the
  \<open>AssertionError\<close> of \<^verbatim>\<open>read_combine_logs\<close> carries the two lengths its message prints.
  \<open>External\<close> is any exception raised inside a collaborator that is not part of
  \<^verbatim>\<open>session.py\<close> (a log parser, the spreadsheet client, the operating system).
\<close>

datatype error =
    AttributeError string
  | NameError string
  | UnboundLocalError string
  | RuntimeError pyval
  | ValueError
  | TypeError
  | OverflowError
  | IndexError
  | KeyError string
  | AssertionError nat nat
  | External string

fun is_NameError :: "error \<Rightarrow> bool" where
  "is_NameError (NameError _) = True"
| "is_NameError (UnboundLocalError _) = True"
| "is_NameError _ = False"

text \<open>
  An object whose attributes are set with \<^verbatim>\<open>setattr\<close> is its attribute dictionary:
  \<open>None\<close> at a name means that the attribute was never assigned, and reading it raises
  \<open>AttributeError\<close>.
\<close>

type_synonym pyobj = "string \<rightharpoonup> pyval"

definition getattr :: "pyobj \<Rightarrow> string \<Rightarrow> error + pyval" where
  "getattr obj name = (case obj name of None \<Rightarrow> Inl (AttributeError name) | Some v \<Rightarrow> Inr v)"

section \<open>SessionMeta\<close>

type_synonym SessionMeta = pyobj

subsection \<open>generate\_session\_id\<close>

text \<open>\<^verbatim>\<open>str.isdigit\<close> on one ASCII character.\<close>

definition isdigit :: "char \<Rightarrow> bool" where
  "isdigit c = (c \<in> set ''0123456789'')"

text \<open>
  \<^verbatim>\<open>"".join([n for n in self.animalid if n.isdigit()])\<close>. Iterating a string yields its
  characters; iterating a list yields its elements and iterating a dictionary its keys,
  each of which must be a string for \<^verbatim>\<open>n.isdigit()\<close> to exist (true for a non-empty
  string of digits); every other value is not iterable. \<open>None\<close> stands for "an exception was raised".
\<close>

fun isdigit_elem :: "pyval \<Rightarrow> bool option" where
  "isdigit_elem (VStr s) = Some (s \<noteq> [] \<and> list_all isdigit s)"
| "isdigit_elem _ = None"

fun str_of :: "pyval \<Rightarrow> string" where
  "str_of (VStr s) = s"
| "str_of _ = []"

definition join_digit_elems :: "pyval list \<Rightarrow> string option" where
  "join_digit_elems vs =
     (if list_all (\<lambda>v. isdigit_elem v \<noteq> None) vs
      then Some (concat (map str_of (filter (\<lambda>v. isdigit_elem v = Some True) vs)))
      else None)"

fun mouse_part :: "pyval \<Rightarrow> string option" where
  "mouse_part (VStr s) = Some (filter isdigit s)"
| "mouse_part (VList vs) = join_digit_elems vs"
| "mouse_part (VDict kvs) = join_digit_elems (map (\<lambda>kv. VStr (fst kv)) kvs)"
| "mouse_part _ = None"

text \<open>
  \<^verbatim>\<open>self.baredate + self.time + mouse_part\<close>, where \<^verbatim>\<open>mouse_part\<close> is a string: among
  the values modelled, \<^verbatim>\<open>x + y\<close> is a string only for two strings, and only a string can
  be added to a string, so the sum exists exactly when both attributes are strings.
\<close>

fun add3_str :: "pyval \<Rightarrow> pyval \<Rightarrow> string \<Rightarrow> string option" where
  "add3_str (VStr b) (VStr t) m = Some (b @ t @ m)"
| "add3_str _ _ _ = None"

text \<open>
  The body of the \<^verbatim>\<open>try\<close> block: the attributes are read in the order
  \<^verbatim>\<open>animalid\<close>, \<^verbatim>\<open>baredate\<close>, \<^verbatim>\<open>time\<close>; \<open>None\<close> when any step raises.
\<close>

definition session_id_try :: "SessionMeta \<Rightarrow> string option" where
  "session_id_try m =
     (case m ''animalid'' of None \<Rightarrow> None
      | Some a \<Rightarrow>
        (case mouse_part a of None \<Rightarrow> None
         | Some mp \<Rightarrow>
           (case m ''baredate'' of None \<Rightarrow> None
            | Some b \<Rightarrow>
              (case m ''time'' of None \<Rightarrow> None
               | Some t \<Rightarrow> add3_str b t mp))))"

text \<open>
  The bare \<^verbatim>\<open>except:\<close> turns every exception of the block into a \<open>RuntimeError\<close>
  whose message reads \<^verbatim>\<open>self.session_dir\<close>; when that attribute is missing too, the
  handler itself raises \<open>AttributeError\<close>.
\<close>

definition generate_session_id :: "SessionMeta \<Rightarrow> error + SessionMeta" where
  "generate_session_id m =
     (case session_id_try m of
        Some sid \<Rightarrow> Inr (m(''session_id'' \<mapsto> VStr sid))
      | None \<Rightarrow>
        (case getattr m ''session_dir'' of
           Inl e \<Rightarrow> Inl e
         | Inr d \<Rightarrow> Inl (RuntimeError d)))"

subsection \<open>String helpers\<close>

text \<open>Sequencing of steps that may raise: the first exception ends the computation.\<close>

definition ebind :: "error + 'a \<Rightarrow> ('a \<Rightarrow> error + 'b) \<Rightarrow> error + 'b" where
  "ebind r f = (case r of Inl e \<Rightarrow> Inl e | Inr x \<Rightarrow> f x)"

text \<open>
  \<^verbatim>\<open>s.split(c)\<close> for a one-character separator: the fields between the separators, empty
  ones included, so at least one field.
\<close>

fun split_on :: "char \<Rightarrow> string \<Rightarrow> string list" where
  "split_on c [] = [[]]"
| "split_on c (x # xs) =
     (if x = c then [] # split_on c xs
      else (case split_on c xs of
              [] \<Rightarrow> [[x]]
            | w # ws \<Rightarrow> (x # w) # ws))"

text \<open>\<^verbatim>\<open>s.find(needle)\<close>: the first index at which \<open>needle\<close> starts, \<open>None\<close> for \<open>-1\<close>.\<close>

fun find_sub :: "string \<Rightarrow> string \<Rightarrow> nat option" where
  "find_sub needle [] = (if needle = [] then Some 0 else None)"
| "find_sub needle (c # cs) =
     (if prefix needle (c # cs) then Some 0 else map_option Suc (find_sub needle cs))"

text \<open>\<^verbatim>\<open>xs[-2]\<close> and \<^verbatim>\<open>xs[1]\<close>, with the \<open>IndexError\<close> of a list that is too short.\<close>

definition index_neg2 :: "'a list \<Rightarrow> error + 'a" where
  "index_neg2 xs = (if 2 \<le> length xs then Inr (xs ! (length xs - 2)) else Inl IndexError)"

definition index_1 :: "'a list \<Rightarrow> error + 'a" where
  "index_1 xs = (if 1 < length xs then Inr (xs ! 1) else Inl IndexError)"

text \<open>
  The string methods \<^verbatim>\<open>find\<close> and \<^verbatim>\<open>split\<close> exist on strings only: on every other
  value the attribute lookup raises.
\<close>

fun as_str :: "string \<Rightarrow> pyval \<Rightarrow> error + string" where
  "as_str meth (VStr s) = Inr s"
| "as_str meth _ = Inl (AttributeError meth)"

text \<open>
  \<^verbatim>\<open>int(x)\<close>. A string is stripped of white space, may carry one sign, and is a run of
  digits in which single underscores may separate digits. A finite float is truncated
  towards zero.
\<close>

definition is_space :: "char \<Rightarrow> bool" where
  "is_space c = (c \<in> set [CHR '' '', CHR 0x09, CHR 0x0A, CHR 0x0B, CHR 0x0C, CHR 0x0D,
                            CHR 0x1C, CHR 0x1D, CHR 0x1E, CHR 0x1F])"

definition strip :: "(char \<Rightarrow> bool) \<Rightarrow> string \<Rightarrow> string" where
  "strip p s = rev (dropWhile p (rev (dropWhile p s)))"

definition nat_of_digits :: "string \<Rightarrow> nat" where
  "nat_of_digits ds = foldl (\<lambda>n c. 10 * n + (of_char c - 48)) 0 ds"

definition unsigned_of_str :: "string \<Rightarrow> int option" where
  "unsigned_of_str s =
     (let groups = split_on CHR ''_'' s
      in if list_all (\<lambda>g. g \<noteq> [] \<and> list_all isdigit g) groups
         then Some (int (nat_of_digits (concat groups)))
         else None)"

definition int_of_str :: "string \<Rightarrow> int option" where
  "int_of_str s =
     (case strip is_space s of
        [] \<Rightarrow> None
      | c # r \<Rightarrow>
          if c = CHR ''-'' then map_option uminus (unsigned_of_str r)
          else if c = CHR ''+'' then unsigned_of_str r
          else unsigned_of_str (c # r))"

fun int_of_float :: "pyfloat \<Rightarrow> error + int" where
  "int_of_float (Finite m e) =
     (if 0 \<le> e then Inr (m * 2 ^ nat e)
      else if 0 \<le> m then Inr (m div 2 ^ nat (- e))
      else Inr (- ((- m) div 2 ^ nat (- e))))"
| "int_of_float NaN = Inl ValueError"
| "int_of_float _ = Inl OverflowError"

fun py_int :: "pyval \<Rightarrow> error + int" where
  "py_int (VInt n) = Inr n"
| "py_int (VBool b) = Inr (if b then 1 else 0)"
| "py_int (VFloat f) = int_of_float f"
| "py_int (VStr s) = (case int_of_str s of None \<Rightarrow> Inl ValueError | Some n \<Rightarrow> Inr n)"
| "py_int _ = Inl TypeError"

text \<open>Truth value of a Python value, as \<^verbatim>\<open>if x:\<close> takes it.\<close>

fun truthy :: "pyval \<Rightarrow> bool" where
  "truthy VNone = False"
| "truthy (VBool b) = b"
| "truthy (VInt n) = (n \<noteq> 0)"
| "truthy (VFloat (Finite m e)) = (m \<noteq> 0)"
| "truthy (VFloat _) = True"
| "truthy (VStr s) = (s \<noteq> [])"
| "truthy (VList vs) = (vs \<noteq> [])"
| "truthy (VDict kvs) = (kvs \<noteq> [])"
| "truthy (VDate _ _ _) = True"

subsection \<open>Collaborators of SessionMeta\<close>

text \<open>
  What \<^verbatim>\<open>SessionMeta\<close> calls but \<^verbatim>\<open>session.py\<close> does not define is a parameter of the
  model: the platform (\<^verbatim>\<open>sys.platform\<close>, \<^verbatim>\<open>os.sep\<close>, \<^verbatim>\<open>os.stat\<close>), the clock and
  calendar conversions of \<^verbatim>\<open>datetime\<close>, \<^verbatim>\<open>float\<close> on a string, the protocol-file parser
  and \<^verbatim>\<open>nonan_unique\<close> of the \<^verbatim>\<open>utils\<close> package, and the spreadsheet client. Each may
  raise.
\<close>

record stat_result =
  st_birthtime :: "pyfloat option"
  st_ctime :: pyfloat

text \<open>One row of the spreadsheet, with the four columns the code reads.\<close>

record sheet_row =
  mouse_id :: pyval
  date_yymmdd :: pyval
  weight_g :: pyval
  rig_water :: pyval

text \<open>
  A protocol file as the parser returns it: the option block as the items of a dictionary
  of strings, the parameter table as named columns.
\<close>

type_synonym protocol = "(string \<times> string) list \<times> (string \<times> pyval list) list"

record externals =
  platform :: string
  sep :: char
  os_stat :: "pyval \<Rightarrow> error + stat_result"
  strptime_date :: "string \<Rightarrow> error + (int \<times> int \<times> int)"
  strftime_nice :: "int \<times> int \<times> int \<Rightarrow> string"
  fromtimestamp_HM :: "pyfloat \<Rightarrow> error + string"
  float_of_str :: "string \<Rightarrow> pyfloat option"
  parseProtocolFile :: "pyval \<Rightarrow> error + protocol"
  nonan_unique :: "pyval list \<Rightarrow> error + pyval list"
  read_sheet :: "error + sheet_row list"
  series_eq :: "pyval list \<Rightarrow> pyval \<Rightarrow> error + bool list"

text \<open>
  \<open>strptime_date E s\<close> is \<^verbatim>\<open>dt.strptime(s, "%y%m%d").date()\<close>; \<open>strftime_nice E d\<close> is
  \<^verbatim>\<open>dt.strftime(d, "%d %b %y")\<close>; \<open>fromtimestamp_HM E t\<close> is
  \<^verbatim>\<open>dt.fromtimestamp(t).strftime("%H%M")\<close>; \<open>read_sheet E\<close> is
  \<^verbatim>\<open>GSheet("Mouse Database_new").read_sheet(2)\<close>; \<open>series_eq E col v\<close> is the pandas
  comparison \<^verbatim>\<open>col == v\<close> of a column with a value, one truth value per row.
\<close>

subsection \<open>set\_date\<close>

definition set_date :: "externals \<Rightarrow> string \<Rightarrow> SessionMeta \<Rightarrow> error + SessionMeta" where
  "set_date E date_str m =
     (let m1 = m(''baredate'' \<mapsto> VStr date_str) in
      ebind (strptime_date E date_str) (\<lambda>(y, mo, d).
        let m2 = m1(''date'' \<mapsto> VDate y mo d);
            m3 = m2(''nicedate'' \<mapsto> VStr (strftime_nice E (y, mo, d)))
        in
        ebind (getattr m3 ''prot_file'') (\<lambda>pf.
        ebind (os_stat E pf) (\<lambda>os_stat_res.
        ebind (if platform E = ''darwin''
               then (case st_birthtime os_stat_res of
                       None \<Rightarrow> Inl (AttributeError ''st_birthtime'')
                     | Some t \<Rightarrow> Inr t)
               else if platform E = ''win32'' then Inr (st_ctime os_stat_res)
               else Inl (UnboundLocalError ''create_epoch'')) (\<lambda>create_epoch.
        ebind (fromtimestamp_HM E create_epoch) (\<lambda>hm.
          Inr (m3(''time'' \<mapsto> VStr hm))))))))"

subsection \<open>set\_weight\_and\_water\<close>

text \<open>
  \<^verbatim>\<open>df[mask1 & mask2]\<close>: the rows at which both masks hold.
\<close>

definition mask_select :: "'a list \<Rightarrow> bool list \<Rightarrow> bool list \<Rightarrow> 'a list" where
  "mask_select df mask1 mask2 =
     map fst (filter snd (zip df (map2 (\<and>) mask1 mask2)))"

definition set_weight_and_water :: "externals \<Rightarrow> bool \<Rightarrow> SessionMeta \<Rightarrow> error + SessionMeta" where
  "set_weight_and_water E skip_google m =
     (let m1 = m(''weight'' \<mapsto> VNone, ''water_consumed'' \<mapsto> VNone) in
      if skip_google then Inr m1
      else
        ebind (read_sheet E) (\<lambda>gsheet_df.
        ebind (getattr m1 ''animalid'') (\<lambda>animalid.
        ebind (series_eq E (map mouse_id gsheet_df) animalid) (\<lambda>mask1.
        ebind (getattr m1 ''baredate'') (\<lambda>baredate.
        ebind (py_int baredate) (\<lambda>d.
        ebind (series_eq E (map date_yymmdd gsheet_df) (VInt d)) (\<lambda>mask2.
          let rows = mask_select gsheet_df mask1 mask2 in
          if rows \<noteq> [] then
            Inr (m1(''weight'' \<mapsto> weight_g (hd rows),
                    ''water_consumed'' \<mapsto>
                       (case py_int (rig_water (hd rows)) of
                          Inr n \<Rightarrow> VInt n
                        | Inl _ \<Rightarrow> VNone)))
          else Inr m1)))))))"

subsection \<open>init\_from\_prot\<close>

definition ignore :: "string list" where
  "ignore = [''picsFolder'', ''picsNameFormat'', ''shuffle'', ''mask'', ''nTrials'',
             ''progressWindow'', ''debiasingWindow'', ''decimationRatio'']"

text \<open>
  The loop over the options. \<^verbatim>\<open>float(v.strip(" "))\<close> replaces the value when it
  succeeds; when it raises, the raw string is kept. For the \<^verbatim>\<open>controller\<close> option,
  \<^verbatim>\<open>"Opto" in v\<close> is a substring test on a string and a \<open>TypeError\<close> on a float.
\<close>

fun set_options :: "externals \<Rightarrow> (string \<times> string) list \<Rightarrow> SessionMeta \<Rightarrow> error + SessionMeta" where
  "set_options E [] m = Inr m"
| "set_options E ((k, v) # rest) m =
     (if k \<in> set ignore then set_options E rest m
      else
        (case float_of_str E (strip (\<lambda>c. c = CHR '' '') v) of
           Some f \<Rightarrow>
             (if k = ''controller'' then Inl TypeError
              else set_options E rest (m(k \<mapsto> VFloat f)))
         | None \<Rightarrow>
             (if k = ''controller'' \<and> find_sub ''Opto'' v \<noteq> None
              then set_options E rest (m(k \<mapsto> VStr v, ''opto'' \<mapsto> VBool True))
              else set_options E rest (m(k \<mapsto> VStr v)))))"

text \<open>The \<^verbatim>\<open>level<N>\<close> token of the file name, or \<^verbatim>\<open>"exp"\<close>.\<close>

definition level_of :: "string \<Rightarrow> string" where
  "level_of prot_file =
     (case find_sub ''level'' prot_file of
        None \<Rightarrow> ''exp''
      | Some i \<Rightarrow>
          takeWhile (\<lambda>c. c \<noteq> CHR ''.'' \<and> c \<noteq> CHR ''_'') (drop (i + length ''level'') prot_file))"

definition column_values :: "externals \<Rightarrow> (string \<times> pyval list) list \<Rightarrow> string \<Rightarrow> error + pyval" where
  "column_values E params name =
     (case map_of params name of
        None \<Rightarrow> Inl (KeyError name)
      | Some col \<Rightarrow> ebind (nonan_unique E col) (\<lambda>vs. Inr (VList vs)))"

definition init_from_prot :: "externals \<Rightarrow> bool \<Rightarrow> SessionMeta \<Rightarrow> error + SessionMeta" where
  "init_from_prot E skip_google m =
     (let m0 = m(''opto'' \<mapsto> VBool False) in
      ebind (getattr m0 ''prot_file'') (\<lambda>pf0.
      ebind (parseProtocolFile E pf0) (\<lambda>(opts, params).
      ebind (set_options E opts m0) (\<lambda>m1.
      ebind (getattr m1 ''opto'') (\<lambda>opto.
      ebind (if truthy opto
             then (case map_of opts ''optoMode'' of
                     None \<Rightarrow> Inr (m1(''opto_mode'' \<mapsto> VInt 0))
                   | Some s \<Rightarrow> ebind (py_int (VStr s)) (\<lambda>n. Inr (m1(''opto_mode'' \<mapsto> VInt n))))
             else Inr m1) (\<lambda>m2.
      ebind (getattr m2 ''prot_file'') (\<lambda>pfv.
      ebind (as_str ''find'' pfv) (\<lambda>prot_file.
        let m3 = m2(''level'' \<mapsto> VStr (level_of prot_file)) in
      ebind (column_values E params ''sf'') (\<lambda>sf.
      ebind (column_values E params ''tf'') (\<lambda>tf.
        let m4 = m3(''sf_values'' \<mapsto> sf, ''tf_values'' \<mapsto> tf);
            parts = split_on (sep E) prot_file
        in
      ebind (index_neg2 parts) (\<lambda>session_dir.
        let experiment_name = hd (split_on CHR ''.'' (last parts));
            m5 = m4(''session_dir'' \<mapsto> VStr session_dir,
                    ''experiment_name'' \<mapsto> VStr experiment_name)
        in
      ebind (index_1 (split_on CHR ''_'' session_dir)) (\<lambda>animalid.
        let m6 = m5(''animalid'' \<mapsto> VStr animalid,
                    ''user'' \<mapsto> VStr (last (split_on CHR ''_'' session_dir)))
        in
      ebind (set_date E (hd (split_on CHR ''_'' (last (split_on (sep E) session_dir)))) m6) (\<lambda>m7.
      ebind (set_weight_and_water E skip_google m7) (\<lambda>m8.
        generate_session_id m8))))))))))))))"

subsection \<open>The constructor\<close>

text \<open>\<^verbatim>\<open>init_from_dict\<close>: every item of \<^verbatim>\<open>self.init_dict\<close> becomes an attribute.\<close>

definition init_from_dict :: "SessionMeta \<Rightarrow> error + SessionMeta" where
  "init_from_dict m =
     ebind (getattr m ''init_dict'') (\<lambda>d.
       case d of
         VDict kvs \<Rightarrow> Inr (foldl (\<lambda>acc kv. acc(fst kv \<mapsto> snd kv)) m kvs)
       | _ \<Rightarrow> Inl (AttributeError ''items''))"

text \<open>
  \<^verbatim>\<open>SessionMeta.__init__\<close>: an \<^verbatim>\<open>init_dict\<close> wins over a \<^verbatim>\<open>prot_file\<close>; with neither
  the object stays without attributes. An argument that is \<open>None\<close> was not given.
\<close>

definition SessionMeta_init ::
  "externals \<Rightarrow> pyval option \<Rightarrow> pyval option \<Rightarrow> bool \<Rightarrow> error + SessionMeta" where
  "SessionMeta_init E prot_file init_dict skip_google =
     (case init_dict of
        Some d \<Rightarrow> init_from_dict (Map.empty(''init_dict'' \<mapsto> d))
      | None \<Rightarrow>
          (case prot_file of
             Some pf \<Rightarrow> init_from_prot E skip_google (Map.empty(''prot_file'' \<mapsto> pf))
           | None \<Rightarrow> Inr Map.empty))"

section \<open>Session\<close>

subsection \<open>Logs, collaborators and the trace of their calls\<close>

text \<open>
  A path argument of \<^verbatim>\<open>read_combine_logs\<close> is a string or a list of strings. A raw log
  is a dictionary from channel names to channel data; the data of a channel and the table
  that \<^verbatim>\<open>extrapolate_time\<close> returns are left open (\<open>'d\<close>, \<open>'t\<close>).
\<close>

datatype path_arg = PStr string | PList "string list"

type_synonym comment = string

type_synonym 'd rawlog = "string \<rightharpoonup> 'd"

text \<open>
  The log parsers, \<^verbatim>\<open>stitchLogs\<close> and \<^verbatim>\<open>extrapolate_time\<close> come from the \<^verbatim>\<open>utils\<close>
  package and are parameters. Each may raise.
\<close>

record ('d, 't) logtools =
  parseStimpyLog :: "path_arg \<Rightarrow> error + ('d rawlog \<times> comment list)"
  parseStimpyGithubLog :: "path_arg \<Rightarrow> error + ('d rawlog \<times> comment list)"
  parseVStimLog :: "path_arg \<Rightarrow> error + ('d rawlog \<times> comment list)"
  stitchLogs :: "'d rawlog list \<Rightarrow> bool \<Rightarrow> error + 'd rawlog"
  extrapolate_time :: "'d rawlog \<Rightarrow> error + 't"

text \<open>
  What a method does besides returning is recorded as a trace: every call of a parser
  (a file is read), of \<^verbatim>\<open>stitchLogs\<close> and of \<^verbatim>\<open>extrapolate_time\<close>, every line given
  to the session logger and every line printed with \<^verbatim>\<open>display\<close>.
\<close>

datatype event =
    ParseStimpy path_arg
  | ParseGithub path_arg
  | ParseVStim path_arg
  | Stitch bool
  | Extrapolate
  | LogInfo string
  | Display string

type_synonym 'a traced = "event list \<times> (error + 'a)"

definition tbind :: "'a traced \<Rightarrow> ('a \<Rightarrow> 'b traced) \<Rightarrow> 'b traced" where
  "tbind m f =
     (case m of
        (t, Inl e) \<Rightarrow> (t, Inl e)
      | (t, Inr x) \<Rightarrow> (case f x of (t', r) \<Rightarrow> (t @ t', r)))"

subsection \<open>read\_combine\_logs\<close>

text \<open>
  \<^verbatim>\<open>try: parseStimpyLog(s) except: parseStimpyGithubLog(s)\<close>, as it stands in both
  branches of \<^verbatim>\<open>read_combine_logs\<close>.
\<close>

definition parse_stimlog ::
  "('d, 't) logtools \<Rightarrow> path_arg \<Rightarrow> ('d rawlog \<times> comment list) traced" where
  "parse_stimlog T p =
     (case parseStimpyLog T p of
        Inr r \<Rightarrow> ([ParseStimpy p], Inr r)
      | Inl _ \<Rightarrow> ([ParseStimpy p, ParseGithub p], parseStimpyGithubLog T p))"

definition parse_riglog ::
  "('d, 't) logtools \<Rightarrow> path_arg \<Rightarrow> ('d rawlog \<times> comment list) traced" where
  "parse_riglog T p = ([ParseStimpy p], parseStimpyLog T p)"

text \<open>
  The loop \<^verbatim>\<open>for i, s_log in enumerate(stimlog_paths)\<close> with its four accumulators
  \<^verbatim>\<open>stim_data_all\<close>, \<^verbatim>\<open>rig_data_all\<close>, \<^verbatim>\<open>stim_comments\<close>, \<^verbatim>\<open>rig_comments\<close>.
\<close>

type_synonym 'd run_acc = "'d rawlog list \<times> 'd rawlog list \<times> comment list \<times> comment list"

fun read_runs ::
  "('d, 't) logtools \<Rightarrow> nat \<Rightarrow> string list \<Rightarrow> string list \<Rightarrow> 'd run_acc \<Rightarrow> 'd run_acc traced" where
  "read_runs T i [] riglog_paths acc = ([], Inr acc)"
| "read_runs T i (s_log # rest) riglog_paths (stim_data_all, rig_data_all, stim_comments, rig_comments) =
     tbind (parse_stimlog T (PStr s_log)) (\<lambda>(temp_slog, temp_scomm).
     tbind (if i < length riglog_paths
            then parse_riglog T (PStr (riglog_paths ! i))
            else ([], Inl IndexError)) (\<lambda>(temp_rlog, temp_rcomm).
       read_runs T (Suc i) rest riglog_paths
         (stim_data_all @ [temp_slog], rig_data_all @ [temp_rlog],
          stim_comments @ temp_scomm, rig_comments @ temp_rcomm)))"

definition read_combine_logs ::
  "('d, 't) logtools \<Rightarrow> path_arg \<Rightarrow> path_arg \<Rightarrow> ('d rawlog \<times> comment list) traced" where
  "read_combine_logs T stimlog_paths riglog_paths =
     (case (stimlog_paths, riglog_paths) of
        (PList ss, PList rs) \<Rightarrow>
          if length ss \<noteq> length rs then ([], Inl (AssertionError (length ss) (length rs)))
          else
            tbind (read_runs T 0 ss rs ([], [], [], []))
              (\<lambda>(stim_data_all, rig_data_all, stim_comments, rig_comments).
            tbind ([Stitch True], stitchLogs T stim_data_all True) (\<lambda>stim_data.
            tbind ([Stitch False], stitchLogs T rig_data_all False) (\<lambda>rig_data.
              ([], Inr (stim_data ++ rig_data, stim_comments @ rig_comments)))))
      | _ \<Rightarrow>
          tbind (parse_stimlog T stimlog_paths) (\<lambda>(stim_data, stim_comments).
          tbind (parse_riglog T riglog_paths) (\<lambda>(rig_data, rig_comments).
            ([], Inr (stim_data ++ rig_data, stim_comments @ rig_comments)))))"

subsection \<open>The session object\<close>

text \<open>
  \<^verbatim>\<open>DataPaths\<close> resolves the files of a session; the fields the session reads are kept.
  A run of \<^verbatim>\<open>runPaths\<close> is a dictionary with the keys \<^verbatim>\<open>"stimlog"\<close> and \<^verbatim>\<open>"riglog"\<close>.
\<close>

record DataPaths =
  savePath :: string
  dataPaths :: "string list"
  runPaths :: "(string \<rightharpoonup> path_arg) list"
  stimlog :: path_arg
  riglog :: path_arg
  log :: path_arg

text \<open>
  \<^verbatim>\<open>self.rawdata\<close> and \<^verbatim>\<open>self.comments\<close> after \<^verbatim>\<open>read_data\<close>: what the single-log
  parser returned (\<^verbatim>\<open>pyvstim\<close>), or one table and one list of comments per run
  (\<^verbatim>\<open>stimpy\<close>).
\<close>

datatype ('d, 't) rawdata_attr = RawLog "'d rawlog" | RunTables "'t list"

datatype comments_attr = FlatComments "comment list" | RunComments "comment list list"

text \<open>
  The attributes of a \<^verbatim>\<open>Session\<close>. \<^verbatim>\<open>__init__\<close> assigns the first five;
  \<^verbatim>\<open>meta\<close>, \<^verbatim>\<open>current_session_no\<close>, \<^verbatim>\<open>rawdata\<close> and \<^verbatim>\<open>comments\<close> are \<open>None\<close>
  until something assigns them.
\<close>

record ('d, 't) Session =
  sessiondir :: string
  load_flag :: bool
  save_mat :: bool
  logversion :: string
  data_paths :: DataPaths
  meta :: "SessionMeta option"
  current_session_no :: "pyval option"
  rawdata :: "('d, 't) rawdata_attr option"
  comments :: "comments_attr option"

text \<open>
  \<^verbatim>\<open>init_data_paths\<close> and \<^verbatim>\<open>__init__\<close>. The file system is the predicate "this path
  exists"; \<open>dp\<close> is what \<^verbatim>\<open>DataPaths(sessiondir)\<close> resolved. The result of
  \<^verbatim>\<open>__init__\<close> is the file system after it, what it printed, and the new session. The
  logger and the database handle that \<^verbatim>\<open>__init__\<close> also creates are not attributes of
  the model: the database is an argument of the methods that use it, and what is logged is
  in their traces.
\<close>

definition init_data_paths ::
  "(string \<Rightarrow> bool) \<Rightarrow> DataPaths \<Rightarrow> (string \<Rightarrow> bool) \<times> event list" where
  "init_data_paths fs dp =
     (if \<not> fs (savePath dp)
      then (fs(savePath dp := True),
            [Display (''Save path does not exist, created save folder at '' @ savePath dp)])
      else (fs, []))"

definition Session_init ::
  "(string \<Rightarrow> bool) \<Rightarrow> string \<Rightarrow> bool \<Rightarrow> bool \<Rightarrow> DataPaths
     \<Rightarrow> (string \<Rightarrow> bool) \<times> event list \<times> ('d, 't) Session" where
  "Session_init fs sessiondir0 load_flag0 save_mat0 dp =
     (case init_data_paths fs dp of
        (fs', t) \<Rightarrow>
          (fs', t,
           \<lparr> sessiondir = sessiondir0, load_flag = load_flag0, save_mat = save_mat0,
             logversion = ''stimpy'', data_paths = dp,
             meta = None, current_session_no = None, rawdata = None, comments = None \<rparr>))"

definition meta_attr :: "('d, 't) Session \<Rightarrow> string \<Rightarrow> error + pyval" where
  "meta_attr s name =
     (case meta s of None \<Rightarrow> Inl (AttributeError ''meta'') | Some m \<Rightarrow> getattr m name)"

subsection \<open>read\_data\<close>

text \<open>
  The decorator \<^verbatim>\<open>@timeit\<close> only prints how long the call took and is left out.
\<close>

definition run_item :: "(string \<rightharpoonup> path_arg) \<Rightarrow> string \<Rightarrow> error + path_arg" where
  "run_item r key = (case r key of None \<Rightarrow> Inl (KeyError key) | Some p \<Rightarrow> Inr p)"

fun attr_tables :: "('d, 't) rawdata_attr option \<Rightarrow> 't list" where
  "attr_tables (Some (RunTables ts)) = ts"
| "attr_tables _ = []"

fun attr_comments :: "comments_attr option \<Rightarrow> comment list list" where
  "attr_comments (Some (RunComments cs)) = cs"
| "attr_comments _ = []"

text \<open>
  One pass of \<^verbatim>\<open>for r in self.data_paths.runPaths\<close>. The result is the trace, the session
  as the loop left it, and the exception that ended it, if any: what was appended before
  an exception stays appended.
\<close>

fun read_runs_multi ::
  "('d, 't) logtools \<Rightarrow> (string \<rightharpoonup> path_arg) list \<Rightarrow> ('d, 't) Session
     \<Rightarrow> event list \<times> ('d, 't) Session \<times> error option" where
  "read_runs_multi T [] s = ([], s, None)"
| "read_runs_multi T (r # rs) s =
     (case run_item r ''stimlog'' of
        Inl e \<Rightarrow> ([], s, Some e)
      | Inr sp \<Rightarrow>
        (case run_item r ''riglog'' of
           Inl e \<Rightarrow> ([], s, Some e)
         | Inr rp \<Rightarrow>
           (case read_combine_logs T sp rp of
              (t1, Inl e) \<Rightarrow> (t1, s, Some e)
            | (t1, Inr (raw, comms)) \<Rightarrow>
              (case extrapolate_time T raw of
                 Inl e \<Rightarrow> (t1 @ [Extrapolate], s, Some e)
               | Inr tab \<Rightarrow>
                 (case read_runs_multi T rs
                         (s\<lparr>rawdata := Some (RunTables (attr_tables (rawdata s) @ [tab])),
                            comments := Some (RunComments (attr_comments (comments s) @ [comms]))\<rparr>) of
                    (t2, s', r') \<Rightarrow> (t1 @ [Extrapolate] @ t2, s', r'))))))"

definition read_data ::
  "('d, 't) logtools \<Rightarrow> ('d, 't) Session \<Rightarrow> event list \<times> ('d, 't) Session \<times> error option" where
  "read_data T s =
     (case
        (if logversion s = ''pyvstim'' then
           (case parseVStimLog T (log (data_paths s)) of
              Inl e \<Rightarrow> ([ParseVStim (log (data_paths s))], s, Some e)
            | Inr (raw, comms) \<Rightarrow>
                ([ParseVStim (log (data_paths s))],
                 s\<lparr>rawdata := Some (RawLog raw), comments := Some (FlatComments comms)\<rparr>, None))
         else if logversion s = ''stimpy'' then
           (if length (runPaths (data_paths s)) > 1 then
              read_runs_multi T (runPaths (data_paths s))
                (s\<lparr>rawdata := Some (RunTables []), comments := Some (RunComments [])\<rparr>)
            else if length (runPaths (data_paths s)) = 1 then
              (case read_combine_logs T (stimlog (data_paths s)) (riglog (data_paths s)) of
                 (t1, Inl e) \<Rightarrow> (t1, s, Some e)
               | (t1, Inr (raw, comms)) \<Rightarrow>
                 (case extrapolate_time T raw of
                    Inl e \<Rightarrow> (t1 @ [Extrapolate], s, Some e)
                  | Inr tab \<Rightarrow>
                      (t1 @ [Extrapolate],
                       s\<lparr>rawdata := Some (RunTables [tab]), comments := Some (RunComments [comms])\<rparr>,
                       None)))
            else ([], s, None))
         else ([], s, None)) of
        (t, s', None) \<Rightarrow> (t @ [LogInfo ''Read rawdata''], s', None)
      | (t, s', Some e) \<Rightarrow> (t, s', Some e))"

subsection \<open>isSaved\<close>

fun isSaved_loop :: "(string \<Rightarrow> bool) \<Rightarrow> string \<Rightarrow> string list \<Rightarrow> bool \<Rightarrow> event list \<times> bool" where
  "isSaved_loop fs save_path [] loadable = ([], loadable)"
| "isSaved_loop fs save_path (r # rs) loadable =
     (let (line, tmp_loadable) =
            (if fs r then (LogInfo (''Found saved data: '' @ r), True)
             else (LogInfo (save_path @ '' exists but no data file is present...''), False));
          (t, res) = isSaved_loop fs save_path rs (loadable \<and> tmp_loadable)
      in (line # t, res))"

definition isSaved :: "(string \<Rightarrow> bool) \<Rightarrow> ('d, 't) Session \<Rightarrow> event list \<times> bool" where
  "isSaved fs s =
     (if fs (savePath (data_paths s))
      then isSaved_loop fs (savePath (data_paths s)) (dataPaths (data_paths s)) True
      else ([Display ''THIS SHOULD NOT HAPPEN''], False))"

subsection \<open>The database interface\<close>

text \<open>
  A row and a filter are dictionaries from column names to values. The four operations
  of \<^verbatim>\<open>DataBaseInterface\<close> that the session calls are parameters; \<open>'db\<close> is the state of
  the database.
\<close>

type_synonym row = "string \<rightharpoonup> pyval"

record 'db db_interface =
  get_entries :: "row \<Rightarrow> string \<Rightarrow> 'db \<Rightarrow> row list"
  exists :: "row \<Rightarrow> string \<Rightarrow> 'db \<Rightarrow> bool"
  add_entry :: "row \<Rightarrow> string \<Rightarrow> 'db \<Rightarrow> 'db"
  update_entry :: "row \<Rightarrow> row \<Rightarrow> string \<Rightarrow> 'db \<Rightarrow> 'db"

text \<open>
  \<^verbatim>\<open>last_session_no + 1\<close> on the cell read from the \<^verbatim>\<open>nSessions\<close> column; \<open>fsucc\<close> is
  the addition of \<open>1\<close> to a float, a parameter.
\<close>

fun plus_one :: "(pyfloat \<Rightarrow> pyfloat) \<Rightarrow> pyval \<Rightarrow> error + pyval" where
  "plus_one fsucc (VInt n) = Inr (VInt (n + 1))"
| "plus_one fsucc (VBool b) = Inr (VInt ((if b then 1 else 0) + 1))"
| "plus_one fsucc (VFloat f) = Inr (VFloat (fsucc f))"
| "plus_one fsucc _ = Inl TypeError"

text \<open>
  \<^verbatim>\<open>overall_session_no\<close> returns the number and assigns no attribute: the session comes
  back as it went in.
\<close>

definition overall_session_no ::
  "'db db_interface \<Rightarrow> (pyfloat \<Rightarrow> pyfloat) \<Rightarrow> ('d, 't) Session \<Rightarrow> 'db
     \<Rightarrow> ('d, 't) Session \<times> (error + pyval)" where
  "overall_session_no I fsucc s db =
     (s,
      ebind (meta_attr s ''animalid'') (\<lambda>animalid.
        case get_entries I [''id'' \<mapsto> animalid] ''animals'' db of
          [] \<Rightarrow> Inr (VInt (0 + 1))
        | mouse_entry # _ \<Rightarrow>
            (case mouse_entry ''nSessions'' of
               None \<Rightarrow> Inl (KeyError ''nSessions'')
             | Some last_session_no \<Rightarrow> plus_one fsucc last_session_no)))"

text \<open>
  \<^verbatim>\<open>save_to_db\<close>. The result is the database as the call left it and the exception that
  ended the call, if any: in the insert branch \<^verbatim>\<open>add_entry\<close> has run before the arguments
  of \<^verbatim>\<open>update_entry\<close> are evaluated. The line that \<^verbatim>\<open>display\<close> prints in the update branch
  is not modelled.
\<close>

definition save_to_db ::
  "'db db_interface \<Rightarrow> ('d, 't) Session \<Rightarrow> row \<Rightarrow> 'db \<Rightarrow> 'db \<times> error option" where
  "save_to_db I s db_dict db =
     (case meta_attr s ''session_id'' of
        Inl e \<Rightarrow> (db, Some e)
      | Inr session_id \<Rightarrow>
          if \<not> exists I [''sessionId'' \<mapsto> session_id] ''sessions'' db then
            (let db1 = add_entry I db_dict ''sessions'' db in
             case meta_attr s ''animalid'' of
               Inl e \<Rightarrow> (db1, Some e)
             | Inr animalid \<Rightarrow>
                 (case current_session_no s of
                    None \<Rightarrow> (db1, Some (AttributeError ''current_session_no''))
                  | Some n \<Rightarrow>
                      (update_entry I [''id'' \<mapsto> animalid] [''nSessions'' \<mapsto> n] ''animals'' db1,
                       None)))
          else (update_entry I [''sessionId'' \<mapsto> session_id] db_dict ''sessions'' db, None))"

subsection \<open>The record database\<close>

text \<open>
  Modelled from the spec: the \<^verbatim>\<open>dbinterface\<close> module (class \<^verbatim>\<open>DataBaseInterface\<close>) is
  not among the sources. The spec gives its interface as
  \<^verbatim>\<open>get_entries(filter, table_name) -> rows\<close>, \<^verbatim>\<open>exists(filter, table_name) -> bool\<close>,
  \<^verbatim>\<open>add_entry(row, table_name)\<close>, \<^verbatim>\<open>update_entry(filter, patch, table_name)\<close> over
  flat tables of rows. A database is its tables by name, a table the list of its rows; a
  row matches a filter when it carries every column of the filter with the filter's
  value; \<^verbatim>\<open>add_entry\<close> appends the row; \<^verbatim>\<open>update_entry\<close> overlays the patch on every
  matching row, in place.
\<close>

type_synonym database = "string \<Rightarrow> row list"

definition matches :: "row \<Rightarrow> row \<Rightarrow> bool" where
  "matches flt r = (flt \<subseteq>\<^sub>m r)"

definition flat_get_entries :: "row \<Rightarrow> string \<Rightarrow> database \<Rightarrow> row list" where
  "flat_get_entries flt table_name db = filter (matches flt) (db table_name)"

definition flat_exists :: "row \<Rightarrow> string \<Rightarrow> database \<Rightarrow> bool" where
  "flat_exists flt table_name db = (flat_get_entries flt table_name db \<noteq> [])"

definition flat_add_entry :: "row \<Rightarrow> string \<Rightarrow> database \<Rightarrow> database" where
  "flat_add_entry r table_name db = db(table_name := db table_name @ [r])"

definition flat_update_entry :: "row \<Rightarrow> row \<Rightarrow> string \<Rightarrow> database \<Rightarrow> database" where
  "flat_update_entry flt patch table_name db =
     db(table_name := map (\<lambda>r. if matches flt r then r ++ patch else r) (db table_name))"

definition flat_db :: "database db_interface" where
  "flat_db = \<lparr> get_entries = flat_get_entries, exists = flat_exists,
               add_entry = flat_add_entry, update_entry = flat_update_entry \<rparr>"

section \<open>Notions used to state the properties\<close>

text \<open>
  The stimlog adapters in the words of the spec: the primary adapter, and the secondary
  one when the primary fails. \<open>stim_trace\<close> lists the adapters this tries on a file,
  \<open>run_trace\<close> the parser calls of one run (its stimlog, then its riglog with the one
  riglog adapter), and \<open>run_ok\<close> says that both logs of a run parse.
\<close>

definition first_success ::
  "('d, 't) logtools \<Rightarrow> path_arg \<Rightarrow> error + ('d rawlog \<times> comment list)" where
  "first_success T p =
     (case parseStimpyLog T p of Inr r \<Rightarrow> Inr r | Inl _ \<Rightarrow> parseStimpyGithubLog T p)"

definition stim_trace :: "('d, 't) logtools \<Rightarrow> path_arg \<Rightarrow> event list" where
  "stim_trace T p =
     (case parseStimpyLog T p of
        Inr _ \<Rightarrow> [ParseStimpy p]
      | Inl _ \<Rightarrow> [ParseStimpy p, ParseGithub p])"

definition run_trace :: "('d, 't) logtools \<Rightarrow> string \<Rightarrow> string \<Rightarrow> event list" where
  "run_trace T s r = stim_trace T (PStr s) @ [ParseStimpy (PStr r)]"

definition run_ok :: "('d, 't) logtools \<Rightarrow> string \<Rightarrow> string \<Rightarrow> bool" where
  "run_ok T s r \<longleftrightarrow> \<not> isl (first_success T (PStr s)) \<and> \<not> isl (parseStimpyLog T (PStr r))"

text \<open>
  What one run yields: its logs read and combined, then extrapolated once; the trace of
  that, the table and the comments. \<open>run_result_of\<close> takes the two paths from a run of
  \<^verbatim>\<open>runPaths\<close>.
\<close>

definition run_result ::
  "('d, 't) logtools \<Rightarrow> path_arg \<Rightarrow> path_arg \<Rightarrow> error + (event list \<times> 't \<times> comment list)" where
  "run_result T sp rp =
     (case read_combine_logs T sp rp of
        (t, Inl e) \<Rightarrow> Inl e
      | (t, Inr (raw, comms)) \<Rightarrow>
          (case extrapolate_time T raw of
             Inl e \<Rightarrow> Inl e
           | Inr tab \<Rightarrow> Inr (t @ [Extrapolate], tab, comms)))"

definition run_result_of ::
  "('d, 't) logtools \<Rightarrow> (string \<rightharpoonup> path_arg) \<Rightarrow> error + (event list \<times> 't \<times> comment list)" where
  "run_result_of T r =
     ebind (run_item r ''stimlog'') (\<lambda>sp.
     ebind (run_item r ''riglog'') (\<lambda>rp. run_result T sp rp))"

text \<open>The rows of the \<^verbatim>\<open>sessions\<close> table that carry a given session id.\<close>

definition session_rows :: "pyval \<Rightarrow> database \<Rightarrow> row list" where
  "session_rows sid db = flat_get_entries [''sessionId'' \<mapsto> sid] ''sessions'' db"

section \<open>An example rig\<close>

text \<open>
  Concrete collaborators on which the definitions can be run: a protocol file with three
  options and two parameter columns, a clock that reads 10:30, and a spreadsheet whose
  cells are compared by equality. The platform and the spreadsheet are arguments.
\<close>

definition example_rig :: "string \<Rightarrow> error + sheet_row list \<Rightarrow> externals" where
  "example_rig plat sheet =
     \<lparr> platform = plat, sep = CHR ''/'',
       os_stat = (\<lambda>_. Inr \<lparr> st_birthtime = Some (Finite 1686825000 0), st_ctime = Finite 1686825000 0 \<rparr>),
       strptime_date = (\<lambda>s. if s = ''230615'' then Inr (2023, 6, 15) else Inl ValueError),
       strftime_nice = (\<lambda>_. ''15 Jun 23''),
       fromtimestamp_HM = (\<lambda>_. Inr ''1030''),
       float_of_str = (\<lambda>s. if s = ''2'' then Some (Finite 2 0) else None),
       parseProtocolFile = (\<lambda>_. Inr ([(''controller'', ''WheelDetection''), (''nTrials'', ''300''),
                                          (''gain'', '' 2 '')],
                                         [(''sf'', [VInt 1]), (''tf'', [VInt 2])])),
       nonan_unique = (\<lambda>vs. Inr vs),
       read_sheet = sheet,
       series_eq = (\<lambda>col v. Inr (map (\<lambda>c. c = v) col)) \<rparr>"

text \<open>
  A spreadsheet with three rows: another animal, animal \<^verbatim>\<open>KC045\<close> with an empty water
  cell, and the same animal a day later with the water volume typed as text.
\<close>

definition example_sheet :: "sheet_row list" where
  "example_sheet =
     [\<lparr> mouse_id = VStr ''KC044'', date_yymmdd = VInt 230615,
        weight_g = VFloat (Finite 45 (- 1)), rig_water = VInt 900 \<rparr>,
      \<lparr> mouse_id = VStr ''KC045'', date_yymmdd = VInt 230615,
        weight_g = VFloat (Finite 47 (- 1)), rig_water = VFloat NaN \<rparr>,
      \<lparr> mouse_id = VStr ''KC045'', date_yymmdd = VInt 230616,
        weight_g = VFloat (Finite 47 (- 1)), rig_water = VStr ''850'' \<rparr>]"

text \<open>
  Log tools for two runs. The stimlog of the first run is in the primary format, that of
  the second in the secondary one; \<^verbatim>\<open>old/riglog\<close> is a file only the secondary adapter
  reads; every other file fails in both. The channel \<^verbatim>\<open>clock\<close> is in the stimlog and in
  the riglog of the first run. Stitching overlays the runs.
\<close>

definition example_tools :: "(nat, nat rawlog) logtools" where
  "example_tools =
     \<lparr> parseStimpyLog = (\<lambda>p.
         if p = PStr ''run1/stimlog'' then Inr ([''stimulus'' \<mapsto> 1, ''clock'' \<mapsto> 10], [''stim start''])
         else if p = PStr ''run1/riglog'' then Inr ([''lick'' \<mapsto> 2, ''clock'' \<mapsto> 20], [''rig start''])
         else if p = PStr ''run2/riglog'' then Inr ([''lick'' \<mapsto> 4], [''rig again''])
         else Inl (External ''not a stimpy log'')),
       parseStimpyGithubLog = (\<lambda>p.
         if p = PStr ''run2/stimlog'' then Inr ([''stimulus'' \<mapsto> 3], [''stim again''])
         else if p = PStr ''old/riglog'' then Inr ([''lick'' \<mapsto> 5], [''old rig''])
         else Inl (External ''not a github log'')),
       parseVStimLog = (\<lambda>p. Inl (External ''not a vstim log'')),
       stitchLogs = (\<lambda>logs isStimlog. Inr (foldl (++) Map.empty logs)),
       extrapolate_time = (\<lambda>raw. Inr raw) \<rparr>"

text \<open>
  A session directory with the two runs of the example tools, as \<^verbatim>\<open>Session.__init__\<close>
  leaves it, and the same session once a subclass has assigned \<^verbatim>\<open>meta\<close> and, possibly,
  \<^verbatim>\<open>current_session_no\<close>. The example database knows the animal and no session.
\<close>

definition example_paths :: "(string \<rightharpoonup> path_arg) list \<Rightarrow> string list \<Rightarrow> DataPaths" where
  "example_paths runs files =
     \<lparr> savePath = ''/analysis/230615_KC045_detect_AB'', dataPaths = files, runPaths = runs,
       stimlog = PStr ''run1/stimlog'', riglog = PStr ''run1/riglog'', log = PStr ''run1/log'' \<rparr>"

definition example_session :: "(string \<rightharpoonup> path_arg) list \<Rightarrow> string list \<Rightarrow> (nat, nat rawlog) Session" where
  "example_session runs files =
     snd (snd (Session_init (\<lambda>p. False) ''230615_KC045_detect_AB'' False False
                 (example_paths runs files)))"

definition example_runs :: "(string \<rightharpoonup> path_arg) list" where
  "example_runs =
     [[''stimlog'' \<mapsto> PStr ''run1/stimlog'', ''riglog'' \<mapsto> PStr ''run1/riglog''],
      [''stimlog'' \<mapsto> PStr ''run2/stimlog'', ''riglog'' \<mapsto> PStr ''run2/riglog'']]"

definition example_db :: database where
  "example_db = (\<lambda>table_name.
      if table_name = ''animals'' then [[''id'' \<mapsto> VStr ''KC045'', ''nSessions'' \<mapsto> VInt 4]]
      else [])"

definition analysed_session :: "pyval option \<Rightarrow> (nat, nat rawlog) Session" where
  "analysed_session session_no =
     (example_session example_runs [])
       \<lparr>meta := Some [''animalid'' \<mapsto> VStr ''KC045'', ''session_id'' \<mapsto> VStr ''2306151030045''],
        current_session_no := session_no\<rparr>"

section \<open>Basic facts\<close>

lemma ebind_Inl [simp]: "ebind (Inl e) f = Inl e"
  by (simp add: ebind_def)

lemma ebind_Inr [simp]: "ebind (Inr x) f = f x"
  by (simp add: ebind_def)

lemma ebind_eq_Inr: "ebind r f = Inr y \<longleftrightarrow> (\<exists>x. r = Inr x \<and> f x = Inr y)"
  by (cases r) simp_all

text \<open>
  \<^verbatim>\<open>split\<close> never returns an empty list, so the first and the last field that
  \<^verbatim>\<open>init_from_prot\<close> takes always exist.
\<close>

lemma split_on_not_Nil: "split_on c s \<noteq> []"
  by (induction s) (auto split: list.splits)

text \<open>After \<^verbatim>\<open>Session.__init__\<close> the save path exists.\<close>

lemma Session_init_save_path: "fst (Session_init fs sd lf sm dp) (savePath dp)"
  by (simp add: Session_init_def init_data_paths_def)

lemma session_id_try_strings:
  assumes "m ''animalid'' = Some (VStr a)"
    and "m ''baredate'' = Some (VStr b)"
    and "m ''time'' = Some (VStr t)"
  shows "session_id_try m = Some (b @ t @ filter isdigit a)"
  using assms by (simp add: session_id_try_def)

lemma session_id_try_missing:
  assumes "m ''animalid'' = None \<or> m ''baredate'' = None \<or> m ''time'' = None"
  shows "session_id_try m = None"
  using assms by (auto simp: session_id_try_def split: option.splits)

lemma set_date_Inr:
  assumes "set_date E ds m = Inr m'"
  shows "\<exists>y mo d hm. m' = m(''baredate'' \<mapsto> VStr ds, ''date'' \<mapsto> VDate y mo d,
            ''nicedate'' \<mapsto> VStr (strftime_nice E (y, mo, d)), ''time'' \<mapsto> VStr hm)"
  using assms
  by (auto simp: set_date_def ebind_eq_Inr Let_def split: prod.splits)

lemma set_date_other_platform:
  assumes "platform E \<noteq> ''darwin''" and "platform E \<noteq> ''win32''"
  shows "set_date E ds m \<noteq> Inr m'"
  using assms
  by (auto simp: set_date_def ebind_eq_Inr Let_def split: prod.splits)

lemma set_weight_and_water_frame:
  assumes "set_weight_and_water E sg m = Inr m'"
    and "k \<noteq> ''weight''" and "k \<noteq> ''water_consumed''"
  shows "m' k = m k"
  using assms
  by (auto simp: set_weight_and_water_def ebind_eq_Inr Let_def split: if_splits list.splits)

lemma init_from_prot_other_platform:
  assumes "platform E \<noteq> ''darwin''" and "platform E \<noteq> ''win32''"
  shows "init_from_prot E sg m \<noteq> Inr m'"
  using set_date_other_platform[OF assms]
  by (auto simp: init_from_prot_def ebind_eq_Inr Let_def split: prod.splits)

lemma init_from_prot_steps:
  assumes "init_from_prot E sg m = Inr m'"
  shows "\<exists>ds m6 m7 m8. set_date E ds m6 = Inr m7
           \<and> set_weight_and_water E sg m7 = Inr m8
           \<and> generate_session_id m8 = Inr m'
           \<and> (\<exists>a. m6 ''animalid'' = Some (VStr a))"
  using assms unfolding init_from_prot_def Let_def
  by (fastforce simp: ebind_eq_Inr split: prod.splits)

lemma generate_session_id_Inr:
  assumes "generate_session_id m = Inr m'"
  shows "\<exists>sid. session_id_try m = Some sid \<and> m' = m(''session_id'' \<mapsto> VStr sid)"
  using assms
  by (auto simp: generate_session_id_def getattr_def split: option.splits)

lemma init_from_prot_session_id:
  assumes "init_from_prot E sg m = Inr m'"
  shows "\<exists>a b t. m' ''animalid'' = Some (VStr a) \<and> m' ''baredate'' = Some (VStr b)
           \<and> m' ''time'' = Some (VStr t)
           \<and> m' ''session_id'' = Some (VStr (b @ t @ filter isdigit a))"
proof -
  from init_from_prot_steps[OF assms] obtain m6 a ds m7 m8 where
    d: "set_date E ds m6 = Inr m7"
    and a: "m6 ''animalid'' = Some (VStr a)"
    and w: "set_weight_and_water E sg m7 = Inr m8"
    and g: "generate_session_id m8 = Inr m'"
    by blast
  from set_date_Inr[OF d] a obtain t where
    m7a: "m7 ''animalid'' = Some (VStr a)" and m7b: "m7 ''baredate'' = Some (VStr ds)"
    and m7t: "m7 ''time'' = Some (VStr t)"
    by auto
  from set_weight_and_water_frame[OF w] m7a m7b m7t have
    m8: "m8 ''animalid'' = Some (VStr a)" "m8 ''baredate'' = Some (VStr ds)"
        "m8 ''time'' = Some (VStr t)"
    by auto
  then have "session_id_try m8 = Some (ds @ t @ filter isdigit a)"
    by (simp add: session_id_try_strings)
  with generate_session_id_Inr[OF g] have "m' = m8(''session_id'' \<mapsto> VStr (ds @ t @ filter isdigit a))"
    by auto
  with m8 show ?thesis by auto
qed


text \<open>Unfolding of the definitions, for running them on concrete inputs.\<close>

lemmas eval_defs =
  SessionMeta_init_def init_from_prot_def example_rig_def getattr_def ignore_def strip_def
  level_of_def column_values_def index_neg2_def index_1_def set_date_def
  set_weight_and_water_def generate_session_id_def session_id_try_def isdigit_def
  int_of_str_def unsigned_of_str_def is_space_def nat_of_digits_def Let_def

section \<open>The session id (C1)\<close>

text \<open>
  Claim C1, as the code has it. With \<^verbatim>\<open>animalid\<close>, \<^verbatim>\<open>baredate\<close> and \<^verbatim>\<open>time\<close> present
  as strings, \<^verbatim>\<open>generate_session_id\<close> stores \<open>baredate + time + digits of animalid\<close> as
  \<^verbatim>\<open>session_id\<close> and raises nothing, whether or not the animal id has a digit. With one
  of the three attributes missing it raises the \<open>RuntimeError\<close> that names
  \<^verbatim>\<open>session_dir\<close>. Every \<^verbatim>\<open>SessionMeta\<close> that the constructor builds from a protocol
  file carries the three attributes as strings and the session id made of them.
\<close>

theorem generate_session_id_result:
  "(m ''animalid'' = Some (VStr a) \<and> m ''baredate'' = Some (VStr b) \<and> m ''time'' = Some (VStr t)
      \<longrightarrow> generate_session_id m = Inr (m(''session_id'' \<mapsto> VStr (b @ t @ filter isdigit a))))
   \<and> ((m ''animalid'' = None \<or> m ''baredate'' = None \<or> m ''time'' = None)
        \<and> m ''session_dir'' = Some d
      \<longrightarrow> generate_session_id m = Inl (RuntimeError d))
   \<and> (SessionMeta_init E (Some pf) None sg = Inr m'
      \<longrightarrow> (\<exists>a' b' t'. m' ''animalid'' = Some (VStr a') \<and> m' ''baredate'' = Some (VStr b')
             \<and> m' ''time'' = Some (VStr t')
             \<and> m' ''session_id'' = Some (VStr (b' @ t' @ filter isdigit a'))))"
proof (intro conjI impI)
  assume "m ''animalid'' = Some (VStr a) \<and> m ''baredate'' = Some (VStr b) \<and> m ''time'' = Some (VStr t)"
  then have "session_id_try m = Some (b @ t @ filter isdigit a)"
    by (simp add: session_id_try_strings)
  then show "generate_session_id m = Inr (m(''session_id'' \<mapsto> VStr (b @ t @ filter isdigit a)))"
    by (simp add: generate_session_id_def)
next
  assume h: "(m ''animalid'' = None \<or> m ''baredate'' = None \<or> m ''time'' = None)
      \<and> m ''session_dir'' = Some d"
  then have "session_id_try m = None"
    by (simp add: session_id_try_missing)
  with h show "generate_session_id m = Inl (RuntimeError d)"
    by (simp add: generate_session_id_def getattr_def)
next
  assume "SessionMeta_init E (Some pf) None sg = Inr m'"
  then have "init_from_prot E sg (Map.empty(''prot_file'' \<mapsto> pf)) = Inr m'"
    by (simp add: SessionMeta_init_def)
  then show "\<exists>a' b' t'. m' ''animalid'' = Some (VStr a') \<and> m' ''baredate'' = Some (VStr b')
             \<and> m' ''time'' = Some (VStr t')
             \<and> m' ''session_id'' = Some (VStr (b' @ t' @ filter isdigit a'))"
    by (rule init_from_prot_session_id)
qed

text \<open>
  The theorem at work: animal \<^verbatim>\<open>KC045\<close> on 15 June 2023 at 10:30; the same object without
  \<^verbatim>\<open>time\<close>; the constructor on the example rig under macOS.
\<close>

lemma example_init_mac:
  "\<exists>m'. SessionMeta_init (example_rig ''darwin'' (Inr []))
          (Some (VStr ''/data/230615_KC045_detect_AB/detect_level3.txt'')) None True = Inr m'"
  by (simp add: eval_defs)

theorem generate_session_id_witness:
  "generate_session_id [''animalid'' \<mapsto> VStr ''KC045'', ''baredate'' \<mapsto> VStr ''230615'',
                        ''time'' \<mapsto> VStr ''1030'']
     = Inr [''animalid'' \<mapsto> VStr ''KC045'', ''baredate'' \<mapsto> VStr ''230615'',
            ''time'' \<mapsto> VStr ''1030'', ''session_id'' \<mapsto> VStr ''2306151030045'']
   \<and> generate_session_id [''animalid'' \<mapsto> VStr ''KC045'', ''baredate'' \<mapsto> VStr ''230615'',
                          ''session_dir'' \<mapsto> VStr ''230615_KC045_detect_AB'']
     = Inl (RuntimeError (VStr ''230615_KC045_detect_AB''))
   \<and> (\<exists>m' a b t. SessionMeta_init (example_rig ''darwin'' (Inr []))
          (Some (VStr ''/data/230615_KC045_detect_AB/detect_level3.txt'')) None True = Inr m'
        \<and> m' ''animalid'' = Some (VStr a) \<and> m' ''baredate'' = Some (VStr b)
        \<and> m' ''time'' = Some (VStr t)
        \<and> m' ''session_id'' = Some (VStr (b @ t @ filter isdigit a)))"
proof (intro conjI)
  show "generate_session_id [''animalid'' \<mapsto> VStr ''KC045'', ''baredate'' \<mapsto> VStr ''230615'',
                        ''time'' \<mapsto> VStr ''1030'']
     = Inr [''animalid'' \<mapsto> VStr ''KC045'', ''baredate'' \<mapsto> VStr ''230615'',
            ''time'' \<mapsto> VStr ''1030'', ''session_id'' \<mapsto> VStr ''2306151030045'']"
    using generate_session_id_result
      [where m = "[''animalid'' \<mapsto> VStr ''KC045'', ''baredate'' \<mapsto> VStr ''230615'',
                   ''time'' \<mapsto> VStr ''1030'']"
         and a = "''KC045''" and b = "''230615''" and t = "''1030''"]
    by (simp add: isdigit_def)
  show "generate_session_id [''animalid'' \<mapsto> VStr ''KC045'', ''baredate'' \<mapsto> VStr ''230615'',
                          ''session_dir'' \<mapsto> VStr ''230615_KC045_detect_AB'']
     = Inl (RuntimeError (VStr ''230615_KC045_detect_AB''))"
    using generate_session_id_result
      [where m = "[''animalid'' \<mapsto> VStr ''KC045'', ''baredate'' \<mapsto> VStr ''230615'',
                   ''session_dir'' \<mapsto> VStr ''230615_KC045_detect_AB'']"
         and d = "VStr ''230615_KC045_detect_AB''"]
    by simp
  from example_init_mac obtain m' where
    m': "SessionMeta_init (example_rig ''darwin'' (Inr []))
          (Some (VStr ''/data/230615_KC045_detect_AB/detect_level3.txt'')) None True = Inr m'"
    by blast
  with generate_session_id_result
      [where E = "example_rig ''darwin'' (Inr [])"
         and pf = "VStr ''/data/230615_KC045_detect_AB/detect_level3.txt''"
         and sg = True and m' = m']
  show "\<exists>m' a b t. SessionMeta_init (example_rig ''darwin'' (Inr []))
          (Some (VStr ''/data/230615_KC045_detect_AB/detect_level3.txt'')) None True = Inr m'
        \<and> m' ''animalid'' = Some (VStr a) \<and> m' ''baredate'' = Some (VStr b)
        \<and> m' ''time'' = Some (VStr t)
        \<and> m' ''session_id'' = Some (VStr (b @ t @ filter isdigit a))"
    by blast
qed

text \<open>
  Against C1 as the spec words it ("fails loudly if the animal id contains no digits"):
  for the animal id \<^verbatim>\<open>mouse\<close> no exception is raised, and the session id is the date
  and the time alone.
\<close>

theorem generate_session_id_no_digits_counterexample:
  "generate_session_id [''animalid'' \<mapsto> VStr ''mouse'', ''baredate'' \<mapsto> VStr ''230615'',
                        ''time'' \<mapsto> VStr ''1030'',
                        ''session_dir'' \<mapsto> VStr ''230615_mouse_detect_AB'']
     = Inr [''animalid'' \<mapsto> VStr ''mouse'', ''baredate'' \<mapsto> VStr ''230615'',
            ''time'' \<mapsto> VStr ''1030'', ''session_dir'' \<mapsto> VStr ''230615_mouse_detect_AB'',
            ''session_id'' \<mapsto> VStr ''2306151030'']"
  by (simp add: generate_session_id_def session_id_try_def isdigit_def)


section \<open>Weight and water from the spreadsheet (C2)\<close>

text \<open>
  Claim C2, as the code has it. \<^verbatim>\<open>set_weight_and_water\<close> first sets \<^verbatim>\<open>weight\<close> and
  \<^verbatim>\<open>water_consumed\<close> to \<open>None\<close>. With \<^verbatim>\<open>skip_google\<close> that is all. Otherwise an exception
  of the spreadsheet client propagates, and so does the exception of \<^verbatim>\<open>int(self.baredate)\<close>
  for a date that is not a number; when no row matches both attributes stay \<open>None\<close>;
  when a row matches, \<^verbatim>\<open>weight\<close> is its weight cell as it is and \<^verbatim>\<open>water_consumed\<close> is
  \<^verbatim>\<open>int\<close> of its water cell, or \<open>None\<close> when that conversion raises: the one failure that
  is caught.
\<close>

theorem set_weight_and_water_result:
  "set_weight_and_water E True m = Inr (m(''weight'' \<mapsto> VNone, ''water_consumed'' \<mapsto> VNone))
   \<and> (read_sheet E = Inl e \<longrightarrow> set_weight_and_water E False m = Inl e)
   \<and> (read_sheet E = Inr df \<and> m ''animalid'' = Some a
        \<and> series_eq E (map mouse_id df) a = Inr mask1
        \<and> m ''baredate'' = Some b \<and> py_int b = Inl e
      \<longrightarrow> set_weight_and_water E False m = Inl e)
   \<and> (read_sheet E = Inr df \<and> m ''animalid'' = Some a
        \<and> series_eq E (map mouse_id df) a = Inr mask1
        \<and> m ''baredate'' = Some b \<and> py_int b = Inr d
        \<and> series_eq E (map date_yymmdd df) (VInt d) = Inr mask2
        \<and> mask_select df mask1 mask2 = []
      \<longrightarrow> set_weight_and_water E False m
            = Inr (m(''weight'' \<mapsto> VNone, ''water_consumed'' \<mapsto> VNone)))
   \<and> (read_sheet E = Inr df \<and> m ''animalid'' = Some a
        \<and> series_eq E (map mouse_id df) a = Inr mask1
        \<and> m ''baredate'' = Some b \<and> py_int b = Inr d
        \<and> series_eq E (map date_yymmdd df) (VInt d) = Inr mask2
        \<and> mask_select df mask1 mask2 = r # rs
      \<longrightarrow> set_weight_and_water E False m
            = Inr (m(''weight'' \<mapsto> weight_g r,
                     ''water_consumed'' \<mapsto>
                        (case py_int (rig_water r) of Inr n \<Rightarrow> VInt n | Inl _ \<Rightarrow> VNone))))"
  by (simp add: set_weight_and_water_def getattr_def)

text \<open>
  The theorem at work on the example spreadsheet: the lookup skipped, the client failing,
  a date that is no number, a date without a row, a row with an empty water cell, a row
  with the water volume as text.
\<close>

theorem set_weight_and_water_witness:
  "set_weight_and_water (example_rig ''darwin'' (Inr example_sheet)) True
       [''animalid'' \<mapsto> VStr ''KC045'', ''baredate'' \<mapsto> VStr ''230615'']
     = Inr [''animalid'' \<mapsto> VStr ''KC045'', ''baredate'' \<mapsto> VStr ''230615'',
            ''weight'' \<mapsto> VNone, ''water_consumed'' \<mapsto> VNone]
   \<and> set_weight_and_water (example_rig ''darwin'' (Inl (External ''spreadsheet unavailable''))) False
       [''animalid'' \<mapsto> VStr ''KC045'', ''baredate'' \<mapsto> VStr ''230615'']
     = Inl (External ''spreadsheet unavailable'')
   \<and> set_weight_and_water (example_rig ''darwin'' (Inr example_sheet)) False
       [''animalid'' \<mapsto> VStr ''KC045'', ''baredate'' \<mapsto> VStr ''15 June'']
     = Inl ValueError
   \<and> set_weight_and_water (example_rig ''darwin'' (Inr example_sheet)) False
       [''animalid'' \<mapsto> VStr ''KC045'', ''baredate'' \<mapsto> VStr ''230617'']
     = Inr [''animalid'' \<mapsto> VStr ''KC045'', ''baredate'' \<mapsto> VStr ''230617'',
            ''weight'' \<mapsto> VNone, ''water_consumed'' \<mapsto> VNone]
   \<and> set_weight_and_water (example_rig ''darwin'' (Inr example_sheet)) False
       [''animalid'' \<mapsto> VStr ''KC045'', ''baredate'' \<mapsto> VStr ''230615'']
     = Inr [''animalid'' \<mapsto> VStr ''KC045'', ''baredate'' \<mapsto> VStr ''230615'',
            ''weight'' \<mapsto> VFloat (Finite 47 (- 1)), ''water_consumed'' \<mapsto> VNone]
   \<and> set_weight_and_water (example_rig ''darwin'' (Inr example_sheet)) False
       [''animalid'' \<mapsto> VStr ''KC045'', ''baredate'' \<mapsto> VStr ''230616'']
     = Inr [''animalid'' \<mapsto> VStr ''KC045'', ''baredate'' \<mapsto> VStr ''230616'',
            ''weight'' \<mapsto> VFloat (Finite 47 (- 1)), ''water_consumed'' \<mapsto> VInt 850]"
proof -
  let ?R = "example_rig ''darwin'' (Inr example_sheet)"
  let ?U = "example_rig ''darwin'' (Inl (External ''spreadsheet unavailable''))"
  let ?row1 = "\<lparr> mouse_id = VStr ''KC045'', date_yymmdd = VInt 230615,
                 weight_g = VFloat (Finite 47 (- 1)), rig_water = VFloat NaN \<rparr>"
  let ?row2 = "\<lparr> mouse_id = VStr ''KC045'', date_yymmdd = VInt 230616,
                 weight_g = VFloat (Finite 47 (- 1)), rig_water = VStr ''850'' \<rparr>"
  have i1: "py_int (VStr ''230615'') = Inr 230615" and i2: "py_int (VStr ''230616'') = Inr 230616"
    and i3: "py_int (VStr ''230617'') = Inr 230617" and i4: "py_int (VStr ''15 June'') = Inl ValueError"
    and i5: "py_int (VStr ''850'') = Inr 850"
    by (simp_all add: eval_defs)
  have q: "series_eq ?R (map mouse_id example_sheet) (VStr ''KC045'') = Inr [False, True, True]"
    and q1: "series_eq ?R (map date_yymmdd example_sheet) (VInt 230615) = Inr [True, True, False]"
    and q2: "series_eq ?R (map date_yymmdd example_sheet) (VInt 230616) = Inr [False, False, True]"
    and q3: "series_eq ?R (map date_yymmdd example_sheet) (VInt 230617) = Inr [False, False, False]"
    by (simp_all add: example_rig_def example_sheet_def)
  have s1: "mask_select example_sheet [False, True, True] [True, True, False] = [?row1]"
    and s2: "mask_select example_sheet [False, True, True] [False, False, True] = [?row2]"
    and s3: "mask_select example_sheet [False, True, True] [False, False, False] = []"
    by (simp_all add: mask_select_def example_sheet_def)
  have r: "read_sheet ?R = Inr example_sheet"
    and u: "read_sheet ?U = Inl (External ''spreadsheet unavailable'')"
    by (simp_all add: example_rig_def)
  have c1: "set_weight_and_water ?R True
       [''animalid'' \<mapsto> VStr ''KC045'', ''baredate'' \<mapsto> VStr ''230615'']
     = Inr [''animalid'' \<mapsto> VStr ''KC045'', ''baredate'' \<mapsto> VStr ''230615'',
            ''weight'' \<mapsto> VNone, ''water_consumed'' \<mapsto> VNone]"
    using set_weight_and_water_result [where E = ?R
        and m = "[''animalid'' \<mapsto> VStr ''KC045'', ''baredate'' \<mapsto> VStr ''230615'']"]
    by blast
  have c2: "set_weight_and_water ?U False
       [''animalid'' \<mapsto> VStr ''KC045'', ''baredate'' \<mapsto> VStr ''230615'']
     = Inl (External ''spreadsheet unavailable'')"
    using u set_weight_and_water_result [where E = ?U
        and m = "[''animalid'' \<mapsto> VStr ''KC045'', ''baredate'' \<mapsto> VStr ''230615'']"
        and e = "External ''spreadsheet unavailable''"]
    by blast
  have c3: "set_weight_and_water ?R False
       [''animalid'' \<mapsto> VStr ''KC045'', ''baredate'' \<mapsto> VStr ''15 June'']
     = Inl ValueError"
    using r q i4 set_weight_and_water_result [where E = ?R
        and m = "[''animalid'' \<mapsto> VStr ''KC045'', ''baredate'' \<mapsto> VStr ''15 June'']"
        and df = example_sheet and a = "VStr ''KC045''" and ?mask1.0 = "[False, True, True]"
        and b = "VStr ''15 June''" and e = ValueError]
    by simp
  have c4: "set_weight_and_water ?R False
       [''animalid'' \<mapsto> VStr ''KC045'', ''baredate'' \<mapsto> VStr ''230617'']
     = Inr [''animalid'' \<mapsto> VStr ''KC045'', ''baredate'' \<mapsto> VStr ''230617'',
            ''weight'' \<mapsto> VNone, ''water_consumed'' \<mapsto> VNone]"
    using r q q3 i3 s3 set_weight_and_water_result [where E = ?R
        and m = "[''animalid'' \<mapsto> VStr ''KC045'', ''baredate'' \<mapsto> VStr ''230617'']"
        and df = example_sheet and a = "VStr ''KC045''" and ?mask1.0 = "[False, True, True]"
        and b = "VStr ''230617''" and d = 230617 and ?mask2.0 = "[False, False, False]"]
    by simp
  have c5: "set_weight_and_water ?R False
       [''animalid'' \<mapsto> VStr ''KC045'', ''baredate'' \<mapsto> VStr ''230615'']
     = Inr [''animalid'' \<mapsto> VStr ''KC045'', ''baredate'' \<mapsto> VStr ''230615'',
            ''weight'' \<mapsto> VFloat (Finite 47 (- 1)), ''water_consumed'' \<mapsto> VNone]"
    using r q q1 i1 s1 set_weight_and_water_result [where E = ?R
        and m = "[''animalid'' \<mapsto> VStr ''KC045'', ''baredate'' \<mapsto> VStr ''230615'']"
        and df = example_sheet and a = "VStr ''KC045''" and ?mask1.0 = "[False, True, True]"
        and b = "VStr ''230615''" and d = 230615 and ?mask2.0 = "[True, True, False]"
        and r = ?row1 and rs = "[]"]
    by simp
  have c6: "set_weight_and_water ?R False
       [''animalid'' \<mapsto> VStr ''KC045'', ''baredate'' \<mapsto> VStr ''230616'']
     = Inr [''animalid'' \<mapsto> VStr ''KC045'', ''baredate'' \<mapsto> VStr ''230616'',
            ''weight'' \<mapsto> VFloat (Finite 47 (- 1)), ''water_consumed'' \<mapsto> VInt 850]"
    using r q q2 i2 i5 s2 set_weight_and_water_result [where E = ?R
        and m = "[''animalid'' \<mapsto> VStr ''KC045'', ''baredate'' \<mapsto> VStr ''230616'']"
        and df = example_sheet and a = "VStr ''KC045''" and ?mask1.0 = "[False, True, True]"
        and b = "VStr ''230616''" and d = 230616 and ?mask2.0 = "[False, False, True]"
        and r = ?row2 and rs = "[]"]
    by simp
  from c1 c2 c3 c4 c5 c6 show ?thesis
    by blast
qed

text \<open>
  Against C2 as the spec words it ("never propagates an exception"): the exception of an
  unavailable spreadsheet reaches the caller, and so does the \<open>ValueError\<close> of a bare date
  that is not a number.
\<close>

theorem set_weight_and_water_propagates_counterexample:
  "set_weight_and_water (example_rig ''darwin'' (Inl (External ''spreadsheet unavailable''))) False
       [''animalid'' \<mapsto> VStr ''KC045'', ''baredate'' \<mapsto> VStr ''230615'']
     = Inl (External ''spreadsheet unavailable'')
   \<and> set_weight_and_water (example_rig ''darwin'' (Inr [])) False
       [''animalid'' \<mapsto> VStr ''KC045'', ''baredate'' \<mapsto> VStr ''15 June'']
     = Inl ValueError"
  by (simp add: eval_defs)

section \<open>The creation time on other platforms (C9)\<close>

text \<open>
  Claim C9. When \<^verbatim>\<open>sys.platform\<close> is neither \<^verbatim>\<open>darwin\<close> nor \<^verbatim>\<open>win32\<close>, \<^verbatim>\<open>set_date\<close>
  never returns: once the date is parsed and \<^verbatim>\<open>os.stat\<close> has answered, reading the
  unassigned local \<^verbatim>\<open>create_epoch\<close> raises \<open>UnboundLocalError\<close>, a \<open>NameError\<close>; an
  exception of those earlier steps is the only other outcome. So neither
  \<^verbatim>\<open>init_from_prot\<close> nor the constructor on a protocol file completes there.
\<close>

theorem set_date_other_platform_raises:
  assumes "platform E \<noteq> ''darwin''" and "platform E \<noteq> ''win32''"
  shows "(\<exists>e. set_date E ds m = Inl e)
     \<and> (strptime_date E ds = Inr ymd \<and> m ''prot_file'' = Some pf \<and> os_stat E pf = Inr st
          \<longrightarrow> (\<exists>e. set_date E ds m = Inl e \<and> is_NameError e))
     \<and> (\<exists>e. init_from_prot E sg m0 = Inl e)
     \<and> (\<exists>e. SessionMeta_init E (Some pf0) None sg = Inl e)"
proof (intro conjI impI)
  show "\<exists>e. set_date E ds m = Inl e"
    using set_date_other_platform[OF assms, of ds m] by (cases "set_date E ds m") auto
  show "\<exists>e. init_from_prot E sg m0 = Inl e"
    using init_from_prot_other_platform[OF assms, of sg m0] by (cases "init_from_prot E sg m0") auto
  show "\<exists>e. SessionMeta_init E (Some pf0) None sg = Inl e"
    using init_from_prot_other_platform[OF assms, of sg "Map.empty(''prot_file'' \<mapsto> pf0)"]
    by (cases "init_from_prot E sg (Map.empty(''prot_file'' \<mapsto> pf0))")
       (auto simp: SessionMeta_init_def)
next
  assume "strptime_date E ds = Inr ymd \<and> m ''prot_file'' = Some pf \<and> os_stat E pf = Inr st"
  with assms have "set_date E ds m = Inl (UnboundLocalError ''create_epoch'')"
    by (cases ymd) (simp add: set_date_def getattr_def)
  then show "\<exists>e. set_date E ds m = Inl e \<and> is_NameError e"
    by simp
qed

text \<open>The theorem at work: the example rig under Linux.\<close>

theorem set_date_other_platform_witness:
  "platform (example_rig ''linux'' (Inr [])) \<noteq> ''darwin''
   \<and> platform (example_rig ''linux'' (Inr [])) \<noteq> ''win32''
   \<and> set_date (example_rig ''linux'' (Inr [])) ''230615''
        [''prot_file'' \<mapsto> VStr ''/data/230615_KC045_detect_AB/detect_level3.txt'']
      = Inl (UnboundLocalError ''create_epoch'')
   \<and> (\<exists>e. init_from_prot (example_rig ''linux'' (Inr [])) True
        [''prot_file'' \<mapsto> VStr ''/data/230615_KC045_detect_AB/detect_level3.txt''] = Inl e)
   \<and> SessionMeta_init (example_rig ''linux'' (Inr []))
        (Some (VStr ''/data/230615_KC045_detect_AB/detect_level3.txt'')) None True
      = Inl (UnboundLocalError ''create_epoch'')"
proof -
  let ?R = "example_rig ''linux'' (Inr [])"
  have p: "platform ?R \<noteq> ''darwin''" "platform ?R \<noteq> ''win32''"
    by (simp_all add: example_rig_def)
  have ev: "set_date ?R ''230615''
        [''prot_file'' \<mapsto> VStr ''/data/230615_KC045_detect_AB/detect_level3.txt'']
      = Inl (UnboundLocalError ''create_epoch'')"
    "SessionMeta_init ?R
        (Some (VStr ''/data/230615_KC045_detect_AB/detect_level3.txt'')) None True
      = Inl (UnboundLocalError ''create_epoch'')"
    by (simp_all add: eval_defs)
  from set_date_other_platform_raises[OF p] p ev show ?thesis
    by blast
qed


section \<open>Reading and combining the logs\<close>

lemma tbind_Inl [simp]: "tbind (t, Inl e) f = (t, Inl e)"
  by (simp add: tbind_def)

lemma tbind_Inr [simp]: "tbind (t, Inr x) f = (case f x of (t', r) \<Rightarrow> (t @ t', r))"
  by (simp add: tbind_def)

lemma parse_stimlog_eq: "parse_stimlog T p = (stim_trace T p, first_success T p)"
  by (simp add: parse_stimlog_def stim_trace_def first_success_def split: sum.splits)

lemma read_runs_prefix:
  assumes "list_all2 (\<lambda>s sl. first_success T (PStr s) = Inr sl) pre slogs"
    and "list_all2 (\<lambda>r rl. parseStimpyLog T (PStr r) = Inr rl) rpre rlogs"
    and "length pre = length rpre"
  shows "read_runs T (length rs0) (pre @ rest) (rs0 @ rpre @ rrest) (sd, rd, sc, rc) =
         (case read_runs T (length rs0 + length pre) rest (rs0 @ rpre @ rrest)
                 (sd @ map fst slogs, rd @ map fst rlogs,
                  sc @ concat (map snd slogs), rc @ concat (map snd rlogs)) of
            (t', r) \<Rightarrow> (concat (map2 (run_trace T) pre rpre) @ t', r))"
  using assms
proof (induction pre arbitrary: rpre slogs rlogs rs0 sd rd sc rc)
  case Nil
  then show ?case by (simp split: prod.splits)
next
  case (Cons s pre')
  from Cons.prems(1) obtain sl slogs' where
    slogs: "slogs = sl # slogs'" and sl: "first_success T (PStr s) = Inr sl"
    and rest1: "list_all2 (\<lambda>s sl. first_success T (PStr s) = Inr sl) pre' slogs'"
    by (auto simp: list_all2_Cons1)
  from Cons.prems(3) obtain r rpre' where rpre: "rpre = r # rpre'" and len: "length pre' = length rpre'"
    by (cases rpre) auto
  from Cons.prems(2) rpre obtain rl rlogs' where
    rlogs: "rlogs = rl # rlogs'" and rl: "parseStimpyLog T (PStr r) = Inr rl"
    and rest2: "list_all2 (\<lambda>r rl. parseStimpyLog T (PStr r) = Inr rl) rpre' rlogs'"
    by (auto simp: list_all2_Cons1)
  have ih: "read_runs T (length (rs0 @ [r])) (pre' @ rest) ((rs0 @ [r]) @ rpre' @ rrest)
              (sd @ [fst sl], rd @ [fst rl], sc @ snd sl, rc @ snd rl) =
         (case read_runs T (length (rs0 @ [r]) + length pre') rest ((rs0 @ [r]) @ rpre' @ rrest)
                 ((sd @ [fst sl]) @ map fst slogs', (rd @ [fst rl]) @ map fst rlogs',
                  (sc @ snd sl) @ concat (map snd slogs'), (rc @ snd rl) @ concat (map snd rlogs')) of
            (t', r) \<Rightarrow> (concat (map2 (run_trace T) pre' rpre') @ t', r))"
    by (rule Cons.IH[OF rest1 rest2 len])
  have nth: "(rs0 @ r # rpre' @ rrest) ! length rs0 = r"
    by simp
  show ?case
    using ih sl rl nth
    by (cases sl; cases rl)
       (simp add: rpre slogs rlogs parse_stimlog_eq parse_riglog_def run_trace_def split: prod.splits)
qed


lemma list_all2_projr:
  assumes "list_all (\<lambda>x. \<not> isl (f x)) xs"
  shows "list_all2 (\<lambda>x y. f x = Inr y) xs (map (\<lambda>x. projr (f x)) xs)"
  using assms by (induction xs) auto

lemma run_ok_lists:
  assumes "list_all2 (run_ok T) pre rpre"
  obtains slogs rlogs where
    "list_all2 (\<lambda>s sl. first_success T (PStr s) = Inr sl) pre slogs"
    and "list_all2 (\<lambda>r rl. parseStimpyLog T (PStr r) = Inr rl) rpre rlogs"
proof -
  from assms have a: "list_all (\<lambda>s. \<not> isl (first_success T (PStr s))) pre"
    and b: "list_all (\<lambda>r. \<not> isl (parseStimpyLog T (PStr r))) rpre"
    by (induction pre rpre rule: list_all2_induct) (auto simp: run_ok_def)
  have "list_all2 (\<lambda>s sl. first_success T (PStr s) = Inr sl) pre
          (map (\<lambda>s. projr (first_success T (PStr s))) pre)"
    using a by (rule list_all2_projr)
  moreover have "list_all2 (\<lambda>r rl. parseStimpyLog T (PStr r) = Inr rl) rpre
          (map (\<lambda>r. projr (parseStimpyLog T (PStr r))) rpre)"
    using b by (rule list_all2_projr)
  ultimately show thesis
    by (rule that)
qed

lemma read_combine_logs_scalar:
  "read_combine_logs T (PStr s) (PStr r) =
     tbind (stim_trace T (PStr s), first_success T (PStr s)) (\<lambda>(stim_data, stim_comments).
     tbind ([ParseStimpy (PStr r)], parseStimpyLog T (PStr r)) (\<lambda>(rig_data, rig_comments).
       ([], Inr (stim_data ++ rig_data, stim_comments @ rig_comments))))"
  by (simp add: read_combine_logs_def parse_stimlog_eq parse_riglog_def)

lemma read_runs_failing_run:
  assumes ok: "list_all2 (run_ok T) pre rpre"
    and f1: "parseStimpyLog T (PStr s) = Inl e1"
    and f2: "parseStimpyGithubLog T (PStr s) = Inl e2"
  shows "read_runs T 0 (pre @ s # post) (rpre @ r # rpost) ([], [], [], []) =
           (concat (map2 (run_trace T) pre rpre) @ [ParseStimpy (PStr s), ParseGithub (PStr s)], Inl e2)"
proof -
  from ok have len: "length pre = length rpre"
    by (rule list_all2_lengthD)
  from ok obtain slogs rlogs where
    sl: "list_all2 (\<lambda>s sl. first_success T (PStr s) = Inr sl) pre slogs"
    and rl: "list_all2 (\<lambda>r rl. parseStimpyLog T (PStr r) = Inr rl) rpre rlogs"
    by (rule run_ok_lists)
  have fail: "parse_stimlog T (PStr s) = ([ParseStimpy (PStr s), ParseGithub (PStr s)], Inl e2)"
    using f1 f2 by (simp add: parse_stimlog_def)
  show ?thesis
    using read_runs_prefix[OF sl rl len, where ?rs0.0 = "[]" and rest = "s # post" and rrest = "r # rpost"
        and sd = "[]" and rd = "[]" and sc = "[]" and rc = "[]"]
    by (simp add: fail)
qed

lemma read_runs_failing_riglog:
  assumes ok: "list_all2 (run_ok T) pre rpre"
    and f1: "first_success T (PStr s) = Inr x"
    and f2: "parseStimpyLog T (PStr r) = Inl e"
  shows "read_runs T 0 (pre @ s # post) (rpre @ r # rpost) ([], [], [], []) =
           (concat (map2 (run_trace T) pre rpre) @ run_trace T s r, Inl e)"
proof -
  from ok have len: "length pre = length rpre"
    by (rule list_all2_lengthD)
  from ok obtain slogs rlogs where
    sl: "list_all2 (\<lambda>s sl. first_success T (PStr s) = Inr sl) pre slogs"
    and rl: "list_all2 (\<lambda>r rl. parseStimpyLog T (PStr r) = Inr rl) rpre rlogs"
    by (rule run_ok_lists)
  have nth: "(rpre @ r # rpost) ! length pre = r"
    using len by simp
  show ?thesis
    using read_runs_prefix[OF sl rl len, where ?rs0.0 = "[]" and rest = "s # post" and rrest = "r # rpost"
        and sd = "[]" and rd = "[]" and sc = "[]" and rc = "[]"] f1 f2 nth len
    by (cases x) (simp add: parse_stimlog_eq parse_riglog_def run_trace_def)
qed

lemma read_runs_all_ok:
  assumes sl: "list_all2 (\<lambda>s sl. first_success T (PStr s) = Inr sl) ss slogs"
    and rl: "list_all2 (\<lambda>r rl. parseStimpyLog T (PStr r) = Inr rl) rs rlogs"
    and len: "length ss = length rs"
  shows "read_runs T 0 ss rs ([], [], [], []) =
           (concat (map2 (run_trace T) ss rs),
            Inr (map fst slogs, map fst rlogs, concat (map snd slogs), concat (map snd rlogs)))"
  using read_runs_prefix[OF sl rl len, where ?rs0.0 = "[]" and rest = "[]" and rrest = "[]"
        and sd = "[]" and rd = "[]" and sc = "[]" and rc = "[]"]
  by simp

lemmas tools_defs = example_tools_def first_success_def run_ok_def run_trace_def stim_trace_def


subsection \<open>Unequal run counts (C5)\<close>

text \<open>
  Claim C5. Given a list of stimlog paths and a list of riglog paths of different lengths,
  \<^verbatim>\<open>read_combine_logs\<close> raises the \<open>AssertionError\<close> at once: the trace is empty, so no
  parser was called and no file read, and there is no result.
\<close>

theorem read_combine_logs_length_mismatch:
  assumes "length ss \<noteq> length rs"
  shows "read_combine_logs T (PList ss) (PList rs) = ([], Inl (AssertionError (length ss) (length rs)))"
  using assms by (simp add: read_combine_logs_def)

text \<open>The theorem at work: two stimlogs against one riglog.\<close>

theorem read_combine_logs_length_mismatch_witness:
  "length [''run1/stimlog'', ''run2/stimlog''] \<noteq> length [''run1/riglog'']
   \<and> read_combine_logs example_tools (PList [''run1/stimlog'', ''run2/stimlog''])
         (PList [''run1/riglog''])
       = ([], Inl (AssertionError 2 1))"
  using read_combine_logs_length_mismatch
    [where T = example_tools and ss = "[''run1/stimlog'', ''run2/stimlog'']"
       and rs = "[''run1/riglog'']"]
  by simp

subsection \<open>The format adapters (C4)\<close>

text \<open>
  Claim C4. For two paths: when the primary adapter reads the stimlog the secondary one is
  not called; when it fails the secondary one is called on the same file; when both fail
  the exception of the secondary one propagates and the riglog is not read; the riglog is
  read with the one adapter only, whose exception propagates. For two lists: when the runs
  before some run parse and both adapters fail on that run's stimlog, or the riglog
  adapter fails on its riglog, the exception propagates after exactly the parser calls
  made so far, and nothing is stitched or returned.
\<close>

theorem read_combine_logs_adapters:
  "(parseStimpyLog T (PStr s) = Inr (sd, sc) \<and> parseStimpyLog T (PStr r) = Inr (rd, rc)
      \<longrightarrow> read_combine_logs T (PStr s) (PStr r)
            = ([ParseStimpy (PStr s), ParseStimpy (PStr r)], Inr (sd ++ rd, sc @ rc)))
   \<and> (parseStimpyLog T (PStr s) = Inl e1 \<and> parseStimpyGithubLog T (PStr s) = Inr (sd, sc)
        \<and> parseStimpyLog T (PStr r) = Inr (rd, rc)
      \<longrightarrow> read_combine_logs T (PStr s) (PStr r)
            = ([ParseStimpy (PStr s), ParseGithub (PStr s), ParseStimpy (PStr r)],
               Inr (sd ++ rd, sc @ rc)))
   \<and> (parseStimpyLog T (PStr s) = Inl e1 \<and> parseStimpyGithubLog T (PStr s) = Inl e2
      \<longrightarrow> read_combine_logs T (PStr s) (PStr r)
            = ([ParseStimpy (PStr s), ParseGithub (PStr s)], Inl e2))
   \<and> (first_success T (PStr s) = Inr x \<and> parseStimpyLog T (PStr r) = Inl e
      \<longrightarrow> read_combine_logs T (PStr s) (PStr r) = (run_trace T s r, Inl e))
   \<and> (list_all2 (run_ok T) pre rpre \<and> length post = length rpost
        \<and> parseStimpyLog T (PStr s) = Inl e1 \<and> parseStimpyGithubLog T (PStr s) = Inl e2
      \<longrightarrow> read_combine_logs T (PList (pre @ s # post)) (PList (rpre @ r # rpost))
            = (concat (map2 (run_trace T) pre rpre) @ [ParseStimpy (PStr s), ParseGithub (PStr s)],
               Inl e2))
   \<and> (list_all2 (run_ok T) pre rpre \<and> length post = length rpost
        \<and> first_success T (PStr s) = Inr x \<and> parseStimpyLog T (PStr r) = Inl e
      \<longrightarrow> read_combine_logs T (PList (pre @ s # post)) (PList (rpre @ r # rpost))
            = (concat (map2 (run_trace T) pre rpre) @ run_trace T s r, Inl e))"
proof (intro conjI impI)
  assume "parseStimpyLog T (PStr s) = Inr (sd, sc) \<and> parseStimpyLog T (PStr r) = Inr (rd, rc)"
  then show "read_combine_logs T (PStr s) (PStr r)
            = ([ParseStimpy (PStr s), ParseStimpy (PStr r)], Inr (sd ++ rd, sc @ rc))"
    by (simp add: read_combine_logs_scalar stim_trace_def first_success_def)
next
  assume "parseStimpyLog T (PStr s) = Inl e1 \<and> parseStimpyGithubLog T (PStr s) = Inr (sd, sc)
        \<and> parseStimpyLog T (PStr r) = Inr (rd, rc)"
  then show "read_combine_logs T (PStr s) (PStr r)
            = ([ParseStimpy (PStr s), ParseGithub (PStr s), ParseStimpy (PStr r)],
               Inr (sd ++ rd, sc @ rc))"
    by (simp add: read_combine_logs_scalar stim_trace_def first_success_def)
next
  assume "parseStimpyLog T (PStr s) = Inl e1 \<and> parseStimpyGithubLog T (PStr s) = Inl e2"
  then show "read_combine_logs T (PStr s) (PStr r)
            = ([ParseStimpy (PStr s), ParseGithub (PStr s)], Inl e2)"
    by (simp add: read_combine_logs_scalar stim_trace_def first_success_def)
next
  assume "first_success T (PStr s) = Inr x \<and> parseStimpyLog T (PStr r) = Inl e"
  then show "read_combine_logs T (PStr s) (PStr r) = (run_trace T s r, Inl e)"
    by (cases x) (simp add: read_combine_logs_scalar run_trace_def)
next
  assume h: "list_all2 (run_ok T) pre rpre \<and> length post = length rpost
        \<and> parseStimpyLog T (PStr s) = Inl e1 \<and> parseStimpyGithubLog T (PStr s) = Inl e2"
  then have "length (pre @ s # post) = length (rpre @ r # rpost)"
    by (auto dest: list_all2_lengthD)
  with h show "read_combine_logs T (PList (pre @ s # post)) (PList (rpre @ r # rpost))
            = (concat (map2 (run_trace T) pre rpre) @ [ParseStimpy (PStr s), ParseGithub (PStr s)],
               Inl e2)"
    by (simp add: read_combine_logs_def read_runs_failing_run del: read_runs.simps)
next
  assume h: "list_all2 (run_ok T) pre rpre \<and> length post = length rpost
        \<and> first_success T (PStr s) = Inr x \<and> parseStimpyLog T (PStr r) = Inl e"
  then have "length (pre @ s # post) = length (rpre @ r # rpost)"
    by (auto dest: list_all2_lengthD)
  with h show "read_combine_logs T (PList (pre @ s # post)) (PList (rpre @ r # rpost))
            = (concat (map2 (run_trace T) pre rpre) @ run_trace T s r, Inl e)"
    by (simp add: read_combine_logs_def read_runs_failing_riglog del: read_runs.simps)
qed

text \<open>
  The theorem at work on the example tools: a stimlog in the primary format, one in the
  secondary format, one in neither, a riglog the riglog adapter cannot read, and the last
  two as the second run of a session.
\<close>

theorem read_combine_logs_adapters_witness:
  "read_combine_logs example_tools (PStr ''run1/stimlog'') (PStr ''run1/riglog'')
     = ([ParseStimpy (PStr ''run1/stimlog''), ParseStimpy (PStr ''run1/riglog'')],
        Inr ([''stimulus'' \<mapsto> 1, ''clock'' \<mapsto> 10] ++ [''lick'' \<mapsto> 2, ''clock'' \<mapsto> 20],
             [''stim start'', ''rig start'']))
   \<and> read_combine_logs example_tools (PStr ''run2/stimlog'') (PStr ''run2/riglog'')
     = ([ParseStimpy (PStr ''run2/stimlog''), ParseGithub (PStr ''run2/stimlog''),
         ParseStimpy (PStr ''run2/riglog'')],
        Inr ([''stimulus'' \<mapsto> 3] ++ [''lick'' \<mapsto> 4], [''stim again'', ''rig again'']))
   \<and> read_combine_logs example_tools (PStr ''broken/stimlog'') (PStr ''run1/riglog'')
     = ([ParseStimpy (PStr ''broken/stimlog''), ParseGithub (PStr ''broken/stimlog'')],
        Inl (External ''not a github log''))
   \<and> read_combine_logs example_tools (PStr ''run1/stimlog'') (PStr ''old/riglog'')
     = ([ParseStimpy (PStr ''run1/stimlog''), ParseStimpy (PStr ''old/riglog'')],
        Inl (External ''not a stimpy log''))
   \<and> read_combine_logs example_tools (PList [''run1/stimlog'', ''broken/stimlog''])
         (PList [''run1/riglog'', ''run2/riglog''])
     = ([ParseStimpy (PStr ''run1/stimlog''), ParseStimpy (PStr ''run1/riglog''),
         ParseStimpy (PStr ''broken/stimlog''), ParseGithub (PStr ''broken/stimlog'')],
        Inl (External ''not a github log''))
   \<and> read_combine_logs example_tools (PList [''run1/stimlog'', ''run2/stimlog''])
         (PList [''run1/riglog'', ''old/riglog''])
     = ([ParseStimpy (PStr ''run1/stimlog''), ParseStimpy (PStr ''run1/riglog''),
         ParseStimpy (PStr ''run2/stimlog''), ParseGithub (PStr ''run2/stimlog''),
         ParseStimpy (PStr ''old/riglog'')],
        Inl (External ''not a stimpy log''))"
proof (intro conjI)
  show "read_combine_logs example_tools (PStr ''run1/stimlog'') (PStr ''run1/riglog'')
     = ([ParseStimpy (PStr ''run1/stimlog''), ParseStimpy (PStr ''run1/riglog'')],
        Inr ([''stimulus'' \<mapsto> 1, ''clock'' \<mapsto> 10] ++ [''lick'' \<mapsto> 2, ''clock'' \<mapsto> 20],
             [''stim start'', ''rig start'']))"
    using read_combine_logs_adapters
      [where T = example_tools and s = "''run1/stimlog''" and r = "''run1/riglog''"
         and sd = "[''stimulus'' \<mapsto> 1, ''clock'' \<mapsto> 10]" and sc = "[''stim start'']"
         and rd = "[''lick'' \<mapsto> 2, ''clock'' \<mapsto> 20]" and rc = "[''rig start'']"]
    by (simp add: tools_defs)
  show "read_combine_logs example_tools (PStr ''run2/stimlog'') (PStr ''run2/riglog'')
     = ([ParseStimpy (PStr ''run2/stimlog''), ParseGithub (PStr ''run2/stimlog''),
         ParseStimpy (PStr ''run2/riglog'')],
        Inr ([''stimulus'' \<mapsto> 3] ++ [''lick'' \<mapsto> 4], [''stim again'', ''rig again'']))"
    using read_combine_logs_adapters
      [where T = example_tools and s = "''run2/stimlog''" and r = "''run2/riglog''"
         and ?e1.0 = "External ''not a stimpy log''"
         and sd = "[''stimulus'' \<mapsto> 3]" and sc = "[''stim again'']"
         and rd = "[''lick'' \<mapsto> 4]" and rc = "[''rig again'']"]
    by (simp add: tools_defs)
  show "read_combine_logs example_tools (PStr ''broken/stimlog'') (PStr ''run1/riglog'')
     = ([ParseStimpy (PStr ''broken/stimlog''), ParseGithub (PStr ''broken/stimlog'')],
        Inl (External ''not a github log''))"
    using read_combine_logs_adapters
      [where T = example_tools and s = "''broken/stimlog''" and r = "''run1/riglog''"
         and ?e1.0 = "External ''not a stimpy log''" and ?e2.0 = "External ''not a github log''"]
    by (simp add: tools_defs)
  show "read_combine_logs example_tools (PStr ''run1/stimlog'') (PStr ''old/riglog'')
     = ([ParseStimpy (PStr ''run1/stimlog''), ParseStimpy (PStr ''old/riglog'')],
        Inl (External ''not a stimpy log''))"
    using read_combine_logs_adapters
      [where T = example_tools and s = "''run1/stimlog''" and r = "''old/riglog''"
         and x = "([''stimulus'' \<mapsto> 1, ''clock'' \<mapsto> 10], [''stim start''])"
         and e = "External ''not a stimpy log''"]
    by (simp add: tools_defs)
  show "read_combine_logs example_tools (PList [''run1/stimlog'', ''broken/stimlog''])
         (PList [''run1/riglog'', ''run2/riglog''])
     = ([ParseStimpy (PStr ''run1/stimlog''), ParseStimpy (PStr ''run1/riglog''),
         ParseStimpy (PStr ''broken/stimlog''), ParseGithub (PStr ''broken/stimlog'')],
        Inl (External ''not a github log''))"
    using read_combine_logs_adapters
      [where T = example_tools and pre = "[''run1/stimlog'']" and rpre = "[''run1/riglog'']"
         and s = "''broken/stimlog''" and r = "''run2/riglog''" and post = "[]" and rpost = "[]"
         and ?e1.0 = "External ''not a stimpy log''" and ?e2.0 = "External ''not a github log''"]
    by (simp add: tools_defs)
  show "read_combine_logs example_tools (PList [''run1/stimlog'', ''run2/stimlog''])
         (PList [''run1/riglog'', ''old/riglog''])
     = ([ParseStimpy (PStr ''run1/stimlog''), ParseStimpy (PStr ''run1/riglog''),
         ParseStimpy (PStr ''run2/stimlog''), ParseGithub (PStr ''run2/stimlog''),
         ParseStimpy (PStr ''old/riglog'')],
        Inl (External ''not a stimpy log''))"
    using read_combine_logs_adapters
      [where T = example_tools and pre = "[''run1/stimlog'']" and rpre = "[''run1/riglog'']"
         and s = "''run2/stimlog''" and r = "''old/riglog''" and post = "[]" and rpost = "[]"
         and x = "([''stimulus'' \<mapsto> 3], [''stim again''])"
         and e = "External ''not a stimpy log''"]
    by (simp add: tools_defs)
qed

subsection \<open>Merging the streams and the comments (C7)\<close>

text \<open>
  Claim C7. Whenever the logs parse (and, for lists, the stitcher returns), the result of
  \<^verbatim>\<open>read_combine_logs\<close> is the stimlog stream overlaid with the riglog stream, in which a
  channel of the riglog replaces a stimlog channel of the same name, and the comments are
  all stimlog comments in run order followed by all riglog comments in run order.
\<close>

theorem read_combine_logs_merge:
  "(first_success T (PStr s) = Inr (sd, sc) \<and> parseStimpyLog T (PStr r) = Inr (rd, rc)
      \<longrightarrow> snd (read_combine_logs T (PStr s) (PStr r)) = Inr (sd ++ rd, sc @ rc))
   \<and> (list_all2 (\<lambda>s sl. first_success T (PStr s) = Inr sl) ss slogs
        \<and> list_all2 (\<lambda>r rl. parseStimpyLog T (PStr r) = Inr rl) rs rlogs
        \<and> length ss = length rs
        \<and> stitchLogs T (map fst slogs) True = Inr stim_data
        \<and> stitchLogs T (map fst rlogs) False = Inr rig_data
      \<longrightarrow> snd (read_combine_logs T (PList ss) (PList rs))
            = Inr (stim_data ++ rig_data, concat (map snd slogs) @ concat (map snd rlogs)))
   \<and> (stim_data ++ rig_data) k = (case rig_data k of Some v \<Rightarrow> Some v | None \<Rightarrow> stim_data k)"
proof (intro conjI impI)
  assume "first_success T (PStr s) = Inr (sd, sc) \<and> parseStimpyLog T (PStr r) = Inr (rd, rc)"
  then show "snd (read_combine_logs T (PStr s) (PStr r)) = Inr (sd ++ rd, sc @ rc)"
    by (simp add: read_combine_logs_scalar)
next
  assume h: "list_all2 (\<lambda>s sl. first_success T (PStr s) = Inr sl) ss slogs
        \<and> list_all2 (\<lambda>r rl. parseStimpyLog T (PStr r) = Inr rl) rs rlogs
        \<and> length ss = length rs
        \<and> stitchLogs T (map fst slogs) True = Inr stim_data
        \<and> stitchLogs T (map fst rlogs) False = Inr rig_data"
  then have "read_runs T 0 ss rs ([], [], [], []) =
           (concat (map2 (run_trace T) ss rs),
            Inr (map fst slogs, map fst rlogs, concat (map snd slogs), concat (map snd rlogs)))"
    by (simp add: read_runs_all_ok)
  with h show "snd (read_combine_logs T (PList ss) (PList rs))
            = Inr (stim_data ++ rig_data, concat (map snd slogs) @ concat (map snd rlogs))"
    by (simp add: read_combine_logs_def)
next
  show "(stim_data ++ rig_data) k = (case rig_data k of Some v \<Rightarrow> Some v | None \<Rightarrow> stim_data k)"
    by (simp add: map_add_def split: option.splits)
qed


text \<open>
  The theorem at work on the example tools: one run, two runs, and the shared channel
  \<^verbatim>\<open>clock\<close>, which takes the riglog's value.
\<close>

theorem read_combine_logs_merge_witness:
  "snd (read_combine_logs example_tools (PStr ''run1/stimlog'') (PStr ''run1/riglog''))
     = Inr ([''stimulus'' \<mapsto> 1, ''clock'' \<mapsto> 10] ++ [''lick'' \<mapsto> 2, ''clock'' \<mapsto> 20],
            [''stim start'', ''rig start''])
   \<and> snd (read_combine_logs example_tools (PList [''run1/stimlog'', ''run2/stimlog''])
             (PList [''run1/riglog'', ''run2/riglog'']))
     = Inr (foldl (++) Map.empty [[''stimulus'' \<mapsto> 1, ''clock'' \<mapsto> 10], [''stimulus'' \<mapsto> 3]]
              ++ foldl (++) Map.empty [[''lick'' \<mapsto> 2, ''clock'' \<mapsto> 20], [''lick'' \<mapsto> 4]],
            [''stim start'', ''stim again'', ''rig start'', ''rig again''])
   \<and> ([''stimulus'' \<mapsto> 1, ''clock'' \<mapsto> 10] ++ [''lick'' \<mapsto> 2, ''clock'' \<mapsto> (20::nat)]) ''clock''
       = Some 20"
proof (intro conjI)
  show "snd (read_combine_logs example_tools (PStr ''run1/stimlog'') (PStr ''run1/riglog''))
     = Inr ([''stimulus'' \<mapsto> 1, ''clock'' \<mapsto> 10] ++ [''lick'' \<mapsto> 2, ''clock'' \<mapsto> 20],
            [''stim start'', ''rig start''])"
    using read_combine_logs_merge
      [where T = example_tools and s = "''run1/stimlog''" and r = "''run1/riglog''"
         and sd = "[''stimulus'' \<mapsto> 1, ''clock'' \<mapsto> 10]" and sc = "[''stim start'']"
         and rd = "[''lick'' \<mapsto> 2, ''clock'' \<mapsto> 20]" and rc = "[''rig start'']"]
    by (simp add: tools_defs)
  show "snd (read_combine_logs example_tools (PList [''run1/stimlog'', ''run2/stimlog''])
             (PList [''run1/riglog'', ''run2/riglog'']))
     = Inr (foldl (++) Map.empty [[''stimulus'' \<mapsto> 1, ''clock'' \<mapsto> 10], [''stimulus'' \<mapsto> 3]]
              ++ foldl (++) Map.empty [[''lick'' \<mapsto> 2, ''clock'' \<mapsto> 20], [''lick'' \<mapsto> 4]],
            [''stim start'', ''stim again'', ''rig start'', ''rig again''])"
    using read_combine_logs_merge
      [where T = example_tools and ss = "[''run1/stimlog'', ''run2/stimlog'']"
         and rs = "[''run1/riglog'', ''run2/riglog'']"
         and slogs = "[([''stimulus'' \<mapsto> 1, ''clock'' \<mapsto> 10], [''stim start'']),
                       ([''stimulus'' \<mapsto> 3], [''stim again''])]"
         and rlogs = "[([''lick'' \<mapsto> 2, ''clock'' \<mapsto> 20], [''rig start'']),
                       ([''lick'' \<mapsto> 4], [''rig again''])]"
         and stim_data = "foldl (++) Map.empty [[''stimulus'' \<mapsto> 1, ''clock'' \<mapsto> 10], [''stimulus'' \<mapsto> 3]]"
         and rig_data = "foldl (++) Map.empty [[''lick'' \<mapsto> 2, ''clock'' \<mapsto> 20], [''lick'' \<mapsto> 4]]"]
    by (simp add: tools_defs)
  show "([''stimulus'' \<mapsto> 1, ''clock'' \<mapsto> 10] ++ [''lick'' \<mapsto> 2, ''clock'' \<mapsto> (20::nat)]) ''clock''
       = Some 20"
    using read_combine_logs_merge
      [where stim_data = "[''stimulus'' \<mapsto> 1, ''clock'' \<mapsto> (10::nat)]"
         and rig_data = "[''lick'' \<mapsto> 2, ''clock'' \<mapsto> (20::nat)]" and k = "''clock''"]
    by simp
qed


section \<open>Reading the data of a session (C6)\<close>

lemma run_result_InrE:
  assumes "run_result T sp rp = Inr (t, tab, comms)"
  obtains t1 raw where "read_combine_logs T sp rp = (t1, Inr (raw, comms))"
    and "extrapolate_time T raw = Inr tab" and "t = t1 @ [Extrapolate]"
proof -
  obtain t1 res where r: "read_combine_logs T sp rp = (t1, res)"
    by (cases "read_combine_logs T sp rp")
  show thesis
  proof (cases res)
    case (Inl e)
    with assms r show ?thesis by (simp add: run_result_def)
  next
    case (Inr p)
    obtain raw c where p: "p = (raw, c)" by (cases p)
    show ?thesis
    proof (cases "extrapolate_time T raw")
      case (Inl e)
      with assms r Inr p show ?thesis by (simp add: run_result_def)
    next
      case ex: (Inr tab')
      with assms r Inr p have "tab' = tab" and "t = t1 @ [Extrapolate]" and "c = comms"
        by (simp_all add: run_result_def)
      with r Inr p ex show ?thesis by (intro that) simp_all
    qed
  qed
qed

lemma read_runs_multi_ok:
  assumes "list_all2 (\<lambda>r x. run_result_of T r = Inr x) rs xs"
    and "rawdata s = Some (RunTables ts0)" and "comments s = Some (RunComments cs0)"
  shows "read_runs_multi T rs s =
           (concat (map fst xs),
            s\<lparr>rawdata := Some (RunTables (ts0 @ map (fst \<circ> snd) xs)),
              comments := Some (RunComments (cs0 @ map (snd \<circ> snd) xs))\<rparr>,
            None)"
  using assms
proof (induction rs xs arbitrary: s ts0 cs0 rule: list_all2_induct)
  case Nil
  then show ?case by simp
next
  case (Cons r rs x xs)
  obtain t tab comms where x: "x = (t, tab, comms)"
    by (cases x) auto
  from Cons.hyps(1) x obtain sp rp where
    sp: "run_item r ''stimlog'' = Inr sp" and rp: "run_item r ''riglog'' = Inr rp"
    and rr: "run_result T sp rp = Inr (t, tab, comms)"
    by (auto simp: run_result_of_def ebind_eq_Inr)
  from rr obtain t1 raw where
    rc: "read_combine_logs T sp rp = (t1, Inr (raw, comms))"
    and ex: "extrapolate_time T raw = Inr tab" and t: "t = t1 @ [Extrapolate]"
    by (rule run_result_InrE)
  let ?s' = "s\<lparr>rawdata := Some (RunTables (attr_tables (rawdata s) @ [tab])),
               comments := Some (RunComments (attr_comments (comments s) @ [comms]))\<rparr>"
  have "read_runs_multi T rs ?s' =
           (concat (map fst xs),
            ?s'\<lparr>rawdata := Some (RunTables ((ts0 @ [tab]) @ map (fst \<circ> snd) xs)),
              comments := Some (RunComments ((cs0 @ [comms]) @ map (snd \<circ> snd) xs))\<rparr>,
            None)"
    by (rule Cons.IH) (simp_all add: Cons.prems)
  then show ?case
    by (simp add: sp rp rc ex t x)
qed

text \<open>
  Claim C6. In a \<^verbatim>\<open>stimpy\<close> session with several run directories whose runs all read,
  \<^verbatim>\<open>read_data\<close> leaves in \<^verbatim>\<open>rawdata\<close> the list of the runs' tables, one per run and in run
  order, each the extrapolation of that run's own combined logs, and in \<^verbatim>\<open>comments\<close> the
  list of the runs' comments. With exactly one run directory it reads the session's
  \<^verbatim>\<open>stimlog\<close> and \<^verbatim>\<open>riglog\<close> once, extrapolates once, and leaves one-element lists. The
  trace holds one \<open>Extrapolate\<close> per run.
\<close>

theorem read_data_stimpy:
  assumes "logversion s = ''stimpy''"
  shows "(1 < length (runPaths (data_paths s))
          \<and> list_all2 (\<lambda>r x. run_result_of T r = Inr x) (runPaths (data_paths s)) xs
        \<longrightarrow> read_data T s =
              (concat (map fst xs) @ [LogInfo ''Read rawdata''],
               s\<lparr>rawdata := Some (RunTables (map (fst \<circ> snd) xs)),
                 comments := Some (RunComments (map (snd \<circ> snd) xs))\<rparr>,
               None))
     \<and> (length (runPaths (data_paths s)) = 1
          \<and> run_result T (stimlog (data_paths s)) (riglog (data_paths s)) = Inr (t, tab, comms)
        \<longrightarrow> read_data T s =
              (t @ [LogInfo ''Read rawdata''],
               s\<lparr>rawdata := Some (RunTables [tab]), comments := Some (RunComments [comms])\<rparr>,
               None))"
proof (intro conjI impI)
  assume h: "1 < length (runPaths (data_paths s))
          \<and> list_all2 (\<lambda>r x. run_result_of T r = Inr x) (runPaths (data_paths s)) xs"
  let ?s0 = "s\<lparr>rawdata := Some (RunTables []), comments := Some (RunComments [])\<rparr>"
  from h have "read_runs_multi T (runPaths (data_paths s)) ?s0 =
           (concat (map fst xs),
            ?s0\<lparr>rawdata := Some (RunTables ([] @ map (fst \<circ> snd) xs)),
              comments := Some (RunComments ([] @ map (snd \<circ> snd) xs))\<rparr>,
            None)"
    by (intro read_runs_multi_ok) simp_all
  with h assms show "read_data T s =
              (concat (map fst xs) @ [LogInfo ''Read rawdata''],
               s\<lparr>rawdata := Some (RunTables (map (fst \<circ> snd) xs)),
                 comments := Some (RunComments (map (snd \<circ> snd) xs))\<rparr>,
               None)"
    by (simp add: read_data_def)
next
  assume h: "length (runPaths (data_paths s)) = 1
          \<and> run_result T (stimlog (data_paths s)) (riglog (data_paths s)) = Inr (t, tab, comms)"
  then have "run_result T (stimlog (data_paths s)) (riglog (data_paths s)) = Inr (t, tab, comms)"
    by simp
  then obtain t1 raw where
    rc: "read_combine_logs T (stimlog (data_paths s)) (riglog (data_paths s)) = (t1, Inr (raw, comms))"
    and ex: "extrapolate_time T raw = Inr tab" and t: "t = t1 @ [Extrapolate]"
    by (rule run_result_InrE)
  with h assms show "read_data T s =
              (t @ [LogInfo ''Read rawdata''],
               s\<lparr>rawdata := Some (RunTables [tab]), comments := Some (RunComments [comms])\<rparr>,
               None)"
    by (simp add: read_data_def)
qed

text \<open>
  With no run directory neither branch is taken: nothing is assigned and the informational
  line is still logged.
\<close>

lemma read_data_no_runs:
  assumes "logversion s = ''stimpy''" and "runPaths (data_paths s) = []"
  shows "read_data T s = ([LogInfo ''Read rawdata''], s, None)"
  using assms by (simp add: read_data_def)

text \<open>The theorem at work: the example session with its two runs, and with the first run only.\<close>

theorem read_data_stimpy_witness:
  "read_data example_tools (example_session example_runs [])
     = ([ParseStimpy (PStr ''run1/stimlog''), ParseStimpy (PStr ''run1/riglog''), Extrapolate,
         ParseStimpy (PStr ''run2/stimlog''), ParseGithub (PStr ''run2/stimlog''),
         ParseStimpy (PStr ''run2/riglog''), Extrapolate, LogInfo ''Read rawdata''],
        (example_session example_runs [])
          \<lparr>rawdata := Some (RunTables
              [[''stimulus'' \<mapsto> 1, ''clock'' \<mapsto> 10] ++ [''lick'' \<mapsto> 2, ''clock'' \<mapsto> 20],
               [''stimulus'' \<mapsto> 3] ++ [''lick'' \<mapsto> 4]]),
           comments := Some (RunComments
              [[''stim start'', ''rig start''], [''stim again'', ''rig again'']])\<rparr>,
        None)
   \<and> read_data example_tools (example_session (take 1 example_runs) [])
     = ([ParseStimpy (PStr ''run1/stimlog''), ParseStimpy (PStr ''run1/riglog''), Extrapolate,
         LogInfo ''Read rawdata''],
        (example_session (take 1 example_runs) [])
          \<lparr>rawdata := Some (RunTables
              [[''stimulus'' \<mapsto> 1, ''clock'' \<mapsto> 10] ++ [''lick'' \<mapsto> 2, ''clock'' \<mapsto> 20]]),
           comments := Some (RunComments [[''stim start'', ''rig start'']])\<rparr>,
        None)"
proof (intro conjI)
  let ?t1 = "[ParseStimpy (PStr ''run1/stimlog''), ParseStimpy (PStr ''run1/riglog''), Extrapolate]"
  let ?t2 = "[ParseStimpy (PStr ''run2/stimlog''), ParseGithub (PStr ''run2/stimlog''),
              ParseStimpy (PStr ''run2/riglog''), Extrapolate]"
  let ?tab1 = "[''stimulus'' \<mapsto> 1, ''clock'' \<mapsto> 10] ++ [''lick'' \<mapsto> 2, ''clock'' \<mapsto> (20::nat)]"
  let ?tab2 = "[''stimulus'' \<mapsto> 3] ++ [''lick'' \<mapsto> (4::nat)]"
  have r1: "run_result example_tools (PStr ''run1/stimlog'') (PStr ''run1/riglog'')
              = Inr (?t1, ?tab1, [''stim start'', ''rig start''])"
    and r2: "run_result example_tools (PStr ''run2/stimlog'') (PStr ''run2/riglog'')
              = Inr (?t2, ?tab2, [''stim again'', ''rig again''])"
    by (simp_all add: run_result_def read_combine_logs_scalar tools_defs)
  show "read_data example_tools (example_session example_runs [])
     = ([ParseStimpy (PStr ''run1/stimlog''), ParseStimpy (PStr ''run1/riglog''), Extrapolate,
         ParseStimpy (PStr ''run2/stimlog''), ParseGithub (PStr ''run2/stimlog''),
         ParseStimpy (PStr ''run2/riglog''), Extrapolate, LogInfo ''Read rawdata''],
        (example_session example_runs [])
          \<lparr>rawdata := Some (RunTables [?tab1, ?tab2]),
           comments := Some (RunComments
              [[''stim start'', ''rig start''], [''stim again'', ''rig again'']])\<rparr>,
        None)"
    using read_data_stimpy
      [where s = "example_session example_runs []" and T = example_tools
         and xs = "[(?t1, ?tab1, [''stim start'', ''rig start'']),
                    (?t2, ?tab2, [''stim again'', ''rig again''])]"]
    by (simp add: example_session_def example_paths_def example_runs_def Session_init_def init_data_paths_def
          run_result_of_def run_item_def r1 r2)
  show "read_data example_tools (example_session (take 1 example_runs) [])
     = ([ParseStimpy (PStr ''run1/stimlog''), ParseStimpy (PStr ''run1/riglog''), Extrapolate,
         LogInfo ''Read rawdata''],
        (example_session (take 1 example_runs) [])
          \<lparr>rawdata := Some (RunTables [?tab1]),
           comments := Some (RunComments [[''stim start'', ''rig start'']])\<rparr>,
        None)"
    using read_data_stimpy
      [where s = "example_session (take 1 example_runs) []" and T = example_tools
         and t = ?t1 and tab = ?tab1 and comms = "[''stim start'', ''rig start'']"]
    by (simp add: example_session_def example_paths_def example_runs_def Session_init_def init_data_paths_def r1)
qed

section \<open>Saved data (C8)\<close>

lemma isSaved_loop_eq:
  "isSaved_loop fs sp rs loadable =
     (map (\<lambda>r. if fs r then LogInfo (''Found saved data: '' @ r)
                else LogInfo (sp @ '' exists but no data file is present...'')) rs,
      loadable \<and> list_all fs rs)"
  by (induction rs arbitrary: loadable) (auto simp: Let_def split: prod.splits)

text \<open>
  Claim C8, as the code has it. \<^verbatim>\<open>isSaved\<close> returns true exactly when the save path exists
  and every file of \<^verbatim>\<open>dataPaths\<close> exists. When the save path exists it logs one line per
  expected file, in order: the line of a file that exists names the file, the line of a
  file that is absent names the save path only. When the save path does not exist it
  prints a fixed line and logs nothing.
\<close>

theorem isSaved_result:
  "snd (isSaved fs s) = (fs (savePath (data_paths s)) \<and> list_all fs (dataPaths (data_paths s)))
   \<and> (fs (savePath (data_paths s))
      \<longrightarrow> fst (isSaved fs s) =
            map (\<lambda>r. if fs r then LogInfo (''Found saved data: '' @ r)
                      else LogInfo (savePath (data_paths s) @ '' exists but no data file is present...''))
                (dataPaths (data_paths s)))
   \<and> (\<not> fs (savePath (data_paths s))
      \<longrightarrow> isSaved fs s = ([Display ''THIS SHOULD NOT HAPPEN''], False))"
  by (simp add: isSaved_def isSaved_loop_eq)


text \<open>
  The theorem at work: the second of two files absent, both present, and the save
  directory absent.
\<close>

theorem isSaved_witness:
  "isSaved (\<lambda>p. p \<in> set [''/analysis/230615_KC045_detect_AB'', ''/analysis/run1.parquet''])
       (example_session example_runs [''/analysis/run1.parquet'', ''/analysis/run2.parquet''])
     = ([LogInfo ''Found saved data: /analysis/run1.parquet'',
         LogInfo ''/analysis/230615_KC045_detect_AB exists but no data file is present...''],
        False)
   \<and> snd (isSaved (\<lambda>p. p \<in> set [''/analysis/230615_KC045_detect_AB'', ''/analysis/run1.parquet'',
                                   ''/analysis/run2.parquet''])
       (example_session example_runs [''/analysis/run1.parquet'', ''/analysis/run2.parquet'']))
   \<and> isSaved (\<lambda>p. p \<in> set [''/analysis/run1.parquet'', ''/analysis/run2.parquet''])
       (example_session example_runs [''/analysis/run1.parquet'', ''/analysis/run2.parquet''])
     = ([Display ''THIS SHOULD NOT HAPPEN''], False)"
proof (intro conjI)
  let ?s = "example_session example_runs [''/analysis/run1.parquet'', ''/analysis/run2.parquet'']"
  have dp: "savePath (data_paths ?s) = ''/analysis/230615_KC045_detect_AB''"
    "dataPaths (data_paths ?s) = [''/analysis/run1.parquet'', ''/analysis/run2.parquet'']"
    by (simp_all add: example_session_def example_paths_def Session_init_def init_data_paths_def)
  show "isSaved (\<lambda>p. p \<in> set [''/analysis/230615_KC045_detect_AB'', ''/analysis/run1.parquet'']) ?s
     = ([LogInfo ''Found saved data: /analysis/run1.parquet'',
         LogInfo ''/analysis/230615_KC045_detect_AB exists but no data file is present...''],
        False)"
    using isSaved_result
      [where s = ?s
         and fs = "\<lambda>p. p \<in> set [''/analysis/230615_KC045_detect_AB'', ''/analysis/run1.parquet'']"]
    by (simp add: dp prod_eq_iff)
  show "snd (isSaved (\<lambda>p. p \<in> set [''/analysis/230615_KC045_detect_AB'', ''/analysis/run1.parquet'',
                                   ''/analysis/run2.parquet'']) ?s)"
    using isSaved_result
      [where s = ?s
         and fs = "\<lambda>p. p \<in> set [''/analysis/230615_KC045_detect_AB'', ''/analysis/run1.parquet'',
                                   ''/analysis/run2.parquet'']"]
    by (simp add: dp)
  show "isSaved (\<lambda>p. p \<in> set [''/analysis/run1.parquet'', ''/analysis/run2.parquet'']) ?s
     = ([Display ''THIS SHOULD NOT HAPPEN''], False)"
    using isSaved_result
      [where s = ?s and fs = "\<lambda>p. p \<in> set [''/analysis/run1.parquet'', ''/analysis/run2.parquet'']"]
    by (simp add: dp)
qed

text \<open>
  Against C8 as the spec words it ("logs which specific files are missing"): two sessions
  that miss different files log the same single line.
\<close>

theorem isSaved_missing_file_not_named_counterexample:
  "fst (isSaved (\<lambda>p. p = ''/analysis/230615_KC045_detect_AB'')
          (example_session example_runs [''/analysis/run1.parquet'']))
     = [LogInfo ''/analysis/230615_KC045_detect_AB exists but no data file is present...'']
   \<and> fst (isSaved (\<lambda>p. p = ''/analysis/230615_KC045_detect_AB'')
          (example_session example_runs [''/analysis/run2.parquet'']))
     = [LogInfo ''/analysis/230615_KC045_detect_AB exists but no data file is present...'']"
  by (simp add: isSaved_def example_session_def example_paths_def Session_init_def init_data_paths_def)

section \<open>Saving to the database (C3, C10)\<close>

lemma matches_single [simp]: "matches [k \<mapsto> v] r \<longleftrightarrow> r k = Some v"
  by (auto simp: matches_def map_le_def)

lemma matches_single_fun: "matches [k \<mapsto> v] = (\<lambda>r. r k = Some v)"
  by (rule ext) simp

lemma session_rows_add:
  assumes "d ''sessionId'' = Some sid"
  shows "session_rows sid (flat_add_entry d ''sessions'' db) = session_rows sid db @ [d]"
  using assms by (simp add: session_rows_def flat_get_entries_def flat_add_entry_def)

lemma session_rows_animals [simp]:
  "session_rows sid (flat_update_entry flt patch ''animals'' db) = session_rows sid db"
  by (simp add: session_rows_def flat_get_entries_def flat_update_entry_def)

lemma filter_patch:
  assumes "d k = Some v"
  shows "filter (\<lambda>r. r k = Some v) (map (\<lambda>r. if r k = Some v then r ++ d else r) rows)
           = map (\<lambda>r. r ++ d) (filter (\<lambda>r. r k = Some v) rows)"
  using assms by (induction rows) (auto simp: map_add_def)

lemma session_rows_update:
  assumes "d ''sessionId'' = Some sid"
  shows "session_rows sid (flat_update_entry [''sessionId'' \<mapsto> sid] d ''sessions'' db)
           = map (\<lambda>r. r ++ d) (session_rows sid db)"
  using filter_patch[where d = d and k = "''sessionId''" and v = sid and rows = "db ''sessions''"] assms
  by (simp add: session_rows_def flat_get_entries_def flat_update_entry_def matches_single_fun)

lemma flat_exists_rows:
  "flat_exists [''sessionId'' \<mapsto> sid] ''sessions'' db \<longleftrightarrow> session_rows sid db \<noteq> []"
  by (simp add: flat_exists_def session_rows_def)

lemma save_to_db_flat:
  assumes "meta s = Some m" and "m ''session_id'' = Some sid" and "m ''animalid'' = Some aid"
    and "current_session_no s = Some n"
  shows "save_to_db flat_db s d db =
           (if session_rows sid db = []
            then (flat_update_entry [''id'' \<mapsto> aid] [''nSessions'' \<mapsto> n] ''animals''
                     (flat_add_entry d ''sessions'' db), None)
            else (flat_update_entry [''sessionId'' \<mapsto> sid] d ''sessions'' db, None))"
  using assms
  by (simp add: save_to_db_def meta_attr_def getattr_def flat_db_def flat_exists_rows)

lemma session_rows_save:
  assumes "meta s = Some m" and "m ''session_id'' = Some sid" and "m ''animalid'' = Some aid"
    and "current_session_no s = Some n" and "d ''sessionId'' = Some sid"
  shows "session_rows sid (fst (save_to_db flat_db s d db)) =
           (if session_rows sid db = [] then [d] else map (\<lambda>r. r ++ d) (session_rows sid db))"
  using assms
  by (simp add: save_to_db_flat[OF assms(1-4)] session_rows_add session_rows_update)

lemma read_runs_multi_current_session_no:
  "current_session_no (fst (snd (read_runs_multi T rs s))) = current_session_no s"
proof (induction rs arbitrary: s)
  case Nil
  then show ?case by simp
next
  case (Cons r rs)
  have ih: "current_session_no s'' = current_session_no s'"
    if "read_runs_multi T rs s' = (t, s'', r')" for s' t s'' r'
    using Cons.IH[of s'] that by simp
  show ?case
    by (auto split: sum.splits prod.splits dest!: ih)
qed

lemma read_data_current_session_no:
  "current_session_no (fst (snd (read_data T s))) = current_session_no s"
proof -
  have multi: "current_session_no s'' = current_session_no s'"
    if "read_runs_multi T rs s' = (t, s'', r')" for rs s' t s'' r'
    using read_runs_multi_current_session_no[of T rs s'] that by simp
  show ?thesis
    by (auto simp: read_data_def split: sum.splits prod.splits option.splits if_splits dest!: multi)
qed

lemmas db_defs =
  analysed_session_def example_db_def session_rows_def flat_db_def flat_get_entries_def
  flat_exists_def flat_add_entry_def flat_update_entry_def


text \<open>
  Claim C3, as the code has it on the record database. For a session whose \<^verbatim>\<open>meta\<close> carries
  \<^verbatim>\<open>session_id\<close> and \<^verbatim>\<open>animalid\<close>, whose \<^verbatim>\<open>current_session_no\<close> is assigned, and for
  payloads that carry the session's id under \<^verbatim>\<open>sessionId\<close>: when the sessions table has
  no row for the id, \<^verbatim>\<open>save_to_db\<close> appends the payload and sets the animal's
  \<^verbatim>\<open>nSessions\<close> to \<^verbatim>\<open>current_session_no\<close>; otherwise it overlays the payload on the rows
  of that id. A call never adds a row for an id that already has one; starting from at most one
  such row, two calls leave exactly one, which carries every value of the second payload.
\<close>

theorem save_to_db_upsert:
  assumes "meta s = Some m" and "m ''session_id'' = Some sid" and "m ''animalid'' = Some aid"
    and "current_session_no s = Some n"
    and "d ''sessionId'' = Some sid" and "d' ''sessionId'' = Some sid"
  shows "(session_rows sid db = []
          \<longrightarrow> save_to_db flat_db s d db =
                (flat_update_entry [''id'' \<mapsto> aid] [''nSessions'' \<mapsto> n] ''animals''
                   (flat_add_entry d ''sessions'' db), None))
     \<and> (session_rows sid db \<noteq> []
          \<longrightarrow> save_to_db flat_db s d db =
                (flat_update_entry [''sessionId'' \<mapsto> sid] d ''sessions'' db, None))
     \<and> length (session_rows sid (fst (save_to_db flat_db s d db)))
         = max 1 (length (session_rows sid db))
     \<and> (length (session_rows sid db) \<le> 1
          \<longrightarrow> (\<exists>r. session_rows sid
                      (fst (save_to_db flat_db s d' (fst (save_to_db flat_db s d db)))) = [r]
                   \<and> d' \<subseteq>\<^sub>m r))"
proof (intro conjI impI)
  note flat = save_to_db_flat[OF assms(1-4)]
  note rows1 = session_rows_save[OF assms(1-4), where d = d, OF assms(5)]
  note rows2 = session_rows_save[OF assms(1-4), where d = d', OF assms(6)]
  show "session_rows sid db = [] \<Longrightarrow> save_to_db flat_db s d db =
                (flat_update_entry [''id'' \<mapsto> aid] [''nSessions'' \<mapsto> n] ''animals''
                   (flat_add_entry d ''sessions'' db), None)"
    by (simp add: flat)
  show "session_rows sid db \<noteq> [] \<Longrightarrow> save_to_db flat_db s d db =
                (flat_update_entry [''sessionId'' \<mapsto> sid] d ''sessions'' db, None)"
    by (simp add: flat)
  show "length (session_rows sid (fst (save_to_db flat_db s d db)))
         = max 1 (length (session_rows sid db))"
    by (cases "session_rows sid db") (simp_all add: rows1)
  assume le: "length (session_rows sid db) \<le> 1"
  let ?db1 = "fst (save_to_db flat_db s d db)"
  from le obtain r1 where r1: "session_rows sid ?db1 = [r1]"
    by (cases "session_rows sid db") (auto simp: rows1)
  then have "session_rows sid (fst (save_to_db flat_db s d' ?db1)) = [r1 ++ d']"
    by (simp add: rows2)
  moreover have "d' \<subseteq>\<^sub>m r1 ++ d'"
    by simp
  ultimately show "\<exists>r. session_rows sid (fst (save_to_db flat_db s d' ?db1)) = [r] \<and> d' \<subseteq>\<^sub>m r"
    by blast
qed

text \<open>The theorem at work: a first save of the example session and a second with a new trial count.\<close>

theorem save_to_db_upsert_witness:
  "session_rows (VStr ''2306151030045'') example_db = []
   \<and> save_to_db flat_db (analysed_session (Some (VInt 5)))
        [''sessionId'' \<mapsto> VStr ''2306151030045'', ''nTrials'' \<mapsto> VInt 200] example_db
     = (flat_update_entry [''id'' \<mapsto> VStr ''KC045''] [''nSessions'' \<mapsto> VInt 5] ''animals''
          (flat_add_entry [''sessionId'' \<mapsto> VStr ''2306151030045'', ''nTrials'' \<mapsto> VInt 200]
             ''sessions'' example_db),
        None)
   \<and> length (session_rows (VStr ''2306151030045'')
        (fst (save_to_db flat_db (analysed_session (Some (VInt 5)))
                [''sessionId'' \<mapsto> VStr ''2306151030045'', ''nTrials'' \<mapsto> VInt 200] example_db))) = 1
   \<and> (\<exists>r. session_rows (VStr ''2306151030045'')
            (fst (save_to_db flat_db (analysed_session (Some (VInt 5)))
                    [''sessionId'' \<mapsto> VStr ''2306151030045'', ''nTrials'' \<mapsto> VInt 250]
                    (fst (save_to_db flat_db (analysed_session (Some (VInt 5)))
                            [''sessionId'' \<mapsto> VStr ''2306151030045'', ''nTrials'' \<mapsto> VInt 200]
                            example_db)))) = [r]
          \<and> r ''sessionId'' = Some (VStr ''2306151030045'') \<and> r ''nTrials'' = Some (VInt 250))"
proof -
  let ?s = "analysed_session (Some (VInt 5))"
  let ?d = "[''sessionId'' \<mapsto> VStr ''2306151030045'', ''nTrials'' \<mapsto> VInt 200]"
  let ?d' = "[''sessionId'' \<mapsto> VStr ''2306151030045'', ''nTrials'' \<mapsto> VInt 250]"
  have none: "session_rows (VStr ''2306151030045'') example_db = []"
    by (simp add: session_rows_def flat_get_entries_def example_db_def)
  have m: "meta ?s = Some [''animalid'' \<mapsto> VStr ''KC045'', ''session_id'' \<mapsto> VStr ''2306151030045'']"
    and n: "current_session_no ?s = Some (VInt 5)"
    by (simp_all add: analysed_session_def)
  have up: "(session_rows (VStr ''2306151030045'') example_db = []
          \<longrightarrow> save_to_db flat_db ?s ?d example_db =
                (flat_update_entry [''id'' \<mapsto> VStr ''KC045''] [''nSessions'' \<mapsto> VInt 5] ''animals''
                   (flat_add_entry ?d ''sessions'' example_db), None))
     \<and> (session_rows (VStr ''2306151030045'') example_db \<noteq> []
          \<longrightarrow> save_to_db flat_db ?s ?d example_db =
                (flat_update_entry [''sessionId'' \<mapsto> VStr ''2306151030045''] ?d ''sessions'' example_db, None))
     \<and> length (session_rows (VStr ''2306151030045'') (fst (save_to_db flat_db ?s ?d example_db)))
         = max 1 (length (session_rows (VStr ''2306151030045'') example_db))
     \<and> (length (session_rows (VStr ''2306151030045'') example_db) \<le> 1
          \<longrightarrow> (\<exists>r. session_rows (VStr ''2306151030045'')
                      (fst (save_to_db flat_db ?s ?d' (fst (save_to_db flat_db ?s ?d example_db)))) = [r]
                   \<and> ?d' \<subseteq>\<^sub>m r))"
    by (rule save_to_db_upsert[OF m _ _ n]) simp_all
  from up none have a: "save_to_db flat_db ?s ?d example_db =
                (flat_update_entry [''id'' \<mapsto> VStr ''KC045''] [''nSessions'' \<mapsto> VInt 5] ''animals''
                   (flat_add_entry ?d ''sessions'' example_db), None)"
    by blast
  from up have "length (session_rows (VStr ''2306151030045'') (fst (save_to_db flat_db ?s ?d example_db)))
         = max 1 (length (session_rows (VStr ''2306151030045'') example_db))"
    by blast
  then have b: "length (session_rows (VStr ''2306151030045'')
                  (fst (save_to_db flat_db ?s ?d example_db))) = 1"
    by (simp only: none list.size max_0R)
  from up none obtain r where
    r: "session_rows (VStr ''2306151030045'')
          (fst (save_to_db flat_db ?s ?d' (fst (save_to_db flat_db ?s ?d example_db)))) = [r]"
    and le: "?d' \<subseteq>\<^sub>m r"
    by auto
  from le have c: "r ''sessionId'' = Some (VStr ''2306151030045'')" "r ''nTrials'' = Some (VInt 250)"
    by (auto simp: map_le_def)
  from none a b r c show ?thesis
    by blast
qed

text \<open>
  Against C3 as the spec words it ("for every payload"): a payload that does not carry the
  session id is inserted again by the second call, and the table ends with two rows.
\<close>

theorem save_to_db_payload_without_id_counterexample:
  "fst (save_to_db flat_db (analysed_session (Some (VInt 5))) [''nTrials'' \<mapsto> VInt 250]
          (fst (save_to_db flat_db (analysed_session (Some (VInt 5))) [''nTrials'' \<mapsto> VInt 200]
                  example_db))) ''sessions''
     = [[''nTrials'' \<mapsto> VInt 200], [''nTrials'' \<mapsto> VInt 250]]"
  by (simp add: save_to_db_def meta_attr_def getattr_def db_defs matches_single_fun)

text \<open>
  Claim C10. For a session whose id is not yet in the sessions table, \<^verbatim>\<open>save_to_db\<close> with
  \<^verbatim>\<open>current_session_no\<close> unassigned ends in an \<open>AttributeError\<close>, after \<^verbatim>\<open>add_entry\<close> has
  run; it is the error of \<^verbatim>\<open>current_session_no\<close> once \<^verbatim>\<open>animalid\<close> could be read. With the
  attribute assigned the call raises nothing. No method of the model assigns it:
  \<^verbatim>\<open>__init__\<close> leaves it unassigned, \<^verbatim>\<open>read_data\<close> keeps it, and \<^verbatim>\<open>overall_session_no\<close>
  returns the session as it was. This holds for every database interface.
\<close>

theorem save_to_db_current_session_no:
  assumes "meta s = Some m" and "m ''session_id'' = Some sid"
    and "\<not> exists I [''sessionId'' \<mapsto> sid] ''sessions'' db"
  shows "(current_session_no s = None
          \<longrightarrow> (\<exists>a. save_to_db I s d db = (add_entry I d ''sessions'' db, Some (AttributeError a))))
     \<and> (current_session_no s = None \<and> m ''animalid'' = Some aid
          \<longrightarrow> save_to_db I s d db =
                (add_entry I d ''sessions'' db, Some (AttributeError ''current_session_no'')))
     \<and> (current_session_no s = Some n \<and> m ''animalid'' = Some aid
          \<longrightarrow> snd (save_to_db I s d db) = None)
     \<and> current_session_no (snd (snd (Session_init fs sd lf sm (data_paths s))) :: ('d, 't) Session)
         = None
     \<and> current_session_no (fst (snd (read_data T s))) = current_session_no s
     \<and> fst (overall_session_no I fsucc s db) = s"
  using assms
  by (auto simp: save_to_db_def meta_attr_def getattr_def Let_def Session_init_def
        init_data_paths_def
        read_data_current_session_no overall_session_no_def split: option.splits)


text \<open>The theorem at work: the example session before and after a subclass assigns the number.\<close>

theorem save_to_db_current_session_no_witness:
  "\<not> exists flat_db [''sessionId'' \<mapsto> VStr ''2306151030045''] ''sessions'' example_db
   \<and> save_to_db flat_db (analysed_session None) [''nTrials'' \<mapsto> VInt 200] example_db
     = (add_entry flat_db [''nTrials'' \<mapsto> VInt 200] ''sessions'' example_db,
        Some (AttributeError ''current_session_no''))
   \<and> snd (save_to_db flat_db (analysed_session (Some (VInt 5))) [''nTrials'' \<mapsto> VInt 200] example_db)
     = None
   \<and> current_session_no
       (snd (snd (Session_init (\<lambda>p. False) ''230615_KC045_detect_AB'' False False
                    (data_paths (analysed_session None))))
          :: (nat, nat rawlog) Session) = None
   \<and> current_session_no (fst (snd (read_data example_tools (analysed_session None)))) = None
   \<and> fst (overall_session_no flat_db id (analysed_session None) example_db) = analysed_session None"
proof -
  have ex: "\<not> exists flat_db [''sessionId'' \<mapsto> VStr ''2306151030045''] ''sessions'' example_db"
    by (simp add: db_defs)
  have m: "meta (analysed_session sn)
             = Some [''animalid'' \<mapsto> VStr ''KC045'', ''session_id'' \<mapsto> VStr ''2306151030045'']"
    and n: "current_session_no (analysed_session sn) = sn" for sn
    by (simp_all add: analysed_session_def)
  note fresh = save_to_db_current_session_no
    [OF m[of None] _ ex, where d = "[''nTrials'' \<mapsto> VInt 200]" and aid = "VStr ''KC045''"
       and T = example_tools and fsucc = id and sd = "''230615_KC045_detect_AB''"
       and lf = False and sm = False and fs = "\<lambda>p. False", unfolded n]
  note assigned = save_to_db_current_session_no
    [OF m[of "Some (VInt 5)"] _ ex, where d = "[''nTrials'' \<mapsto> VInt 200]"
       and aid = "VStr ''KC045''" and n = "VInt 5", unfolded n]
  have a: "[''animalid'' \<mapsto> VStr ''KC045'', ''session_id'' \<mapsto> VStr ''2306151030045''] ''session_id''
             = Some (VStr ''2306151030045'')"
    and b: "[''animalid'' \<mapsto> VStr ''KC045'', ''session_id'' \<mapsto> VStr ''2306151030045''] ''animalid''
             = Some (VStr ''KC045'')"
    by simp_all
  from fresh[OF a] assigned[OF a] b ex show ?thesis
    by blast
qed


end
